theory Spec2Isabelle
  imports Main "HOL-Library.AList"
begin

section \<open>Strings, Python values and exceptions\<close>

text \<open>
  A Python \<open>str\<close> is a sequence of Unicode code points, and \<open>len\<close> counts code points.
  A string is therefore a list of code points, each a natural number. The function
  \<open>str\<close> turns an ASCII literal into such a list.
\<close>

type_synonym pystr = "nat list"

definition cp :: "char \<Rightarrow> nat" where
  "cp c = of_char c"

definition str :: "string \<Rightarrow> pystr" where
  "str cs = map cp cs"

text \<open>
  The classification of code points comes from the Unicode database of the interpreter
  and of the pattern engine; it is a parameter of the model. \<open>isupper\<close>, \<open>islower\<close>
  and \<open>isdigit\<close> are the \<open>str\<close> methods of these names on a single character,
  \<open>isspace\<close> is the class \<open>\s\<close> and \<open>isword\<close> the class \<open>\w\<close>.
\<close>

record unicode_db =
  isupper :: "nat \<Rightarrow> bool"
  islower :: "nat \<Rightarrow> bool"
  isdigit :: "nat \<Rightarrow> bool"
  isspace :: "nat \<Rightarrow> bool"
  isword :: "nat \<Rightarrow> bool"

text \<open>The ASCII part of the database, used to evaluate the model on concrete inputs.\<close>

definition ascii_db :: unicode_db where
  "ascii_db = \<lparr>
     isupper = (\<lambda>c. 65 \<le> c \<and> c \<le> 90),
     islower = (\<lambda>c. 97 \<le> c \<and> c \<le> 122),
     isdigit = (\<lambda>c. 48 \<le> c \<and> c \<le> 57),
     isspace = (\<lambda>c. (9 \<le> c \<and> c \<le> 13) \<or> (28 \<le> c \<and> c \<le> 32)),
     isword = (\<lambda>c. (65 \<le> c \<and> c \<le> 90) \<or> (97 \<le> c \<and> c \<le> 122) \<or> (48 \<le> c \<and> c \<le> 57) \<or> c = 95) \<rparr>"

text \<open>
  The raw values a draft can hold: \<open>None\<close>, a string, a member of the role enumeration,
  a boolean and a UUID (as its 128-bit number). The role enumeration is defined outside
  this file of the repository; its members are the type parameter \<open>'r\<close>, and a
  member is an object of its own, not a string.
\<close>

datatype 'r pyval = PNone | PStr pystr | PEnum 'r | PBool bool | PUuid nat

text \<open>Truthiness, as \<open>any\<close> and \<open>or\<close> test it.\<close>

fun truthy :: "'r pyval \<Rightarrow> bool" where
  "truthy PNone = False"
| "truthy (PStr s) = (s \<noteq> [])"
| "truthy (PEnum r) = True"
| "truthy (PBool b) = b"
| "truthy (PUuid u) = True"

text \<open>
  The exceptions a validator function can raise: the \<open>ValueError\<close> it raises itself,
  with its message, and the \<open>TypeError\<close> that \<open>len\<close> and \<open>re.match\<close> raise on a
  value that is not a string.
\<close>

datatype exn = ValueError string | TypeError

section \<open>Regular expressions as \<open>re.match\<close> runs them\<close>

text \<open>
  The patterns of the source use literals, the dot, character sets, the anchors, the
  postfix operators \<open>?\<close>, \<open>*\<close> and \<open>+\<close>, and a non-capturing group.
  \<open>Eol\<close> is the \<open>$\<close> of Python's \<open>re\<close> module without flags: it matches at the end
  of the string and also just before a line feed that ends the string.
  \<open>EndText\<close> is the \<open>$\<close> of the pattern engine behind a field's \<open>pattern\<close>
  constraint, which matches at the end of the string only.
\<close>

datatype citem = CChar nat | CRange nat nat | CSpace | CWord

datatype rx =
    Eps
  | Lit nat
  | AnyChar
  | InSet "citem list"
  | NotInSet "citem list"
  | Bol
  | Eol
  | EndText
  | Seq rx rx
  | Opt rx
  | Star rx
  | Plus rx

fun in_citem :: "unicode_db \<Rightarrow> citem \<Rightarrow> nat \<Rightarrow> bool" where
  "in_citem u (CChar k) c = (c = k)"
| "in_citem u (CRange lo hi) c = (lo \<le> c \<and> c \<le> hi)"
| "in_citem u CSpace c = isspace u c"
| "in_citem u CWord c = isword u c"

definition in_set :: "unicode_db \<Rightarrow> citem list \<Rightarrow> nat \<Rightarrow> bool" where
  "in_set u items c = list_ex (\<lambda>i. in_citem u i c) items"

text \<open>
  A matcher state is the number of code points consumed and the rest of the string.
  \<open>one_char\<close> consumes one code point that satisfies a test.
\<close>

type_synonym mstate = "nat \<times> pystr"

fun one_char :: "(nat \<Rightarrow> bool) \<Rightarrow> mstate \<Rightarrow> mstate list" where
  "one_char p (n, []) = []"
| "one_char p (n, c # cs) = (if p c then [(Suc n, cs)] else [])"

text \<open>
  \<open>repeat k f sts\<close> collects the states reached from \<open>sts\<close> by at most \<open>k\<close> rounds
  of \<open>f\<close>. A round that consumes nothing reaches no new state, so as many rounds as
  the rest of the string has code points reach every state of a repetition.
\<close>

fun repeat :: "nat \<Rightarrow> (mstate \<Rightarrow> mstate list) \<Rightarrow> mstate list \<Rightarrow> mstate list" where
  "repeat 0 f sts = sts"
| "repeat (Suc k) f sts = sts @ repeat k f (concat (map f sts))"

text \<open>
  \<open>rx_step u r st\<close> lists the states in which a match of \<open>r\<close> that starts in \<open>st\<close>
  can end. The matcher of \<open>re\<close> backtracks over all of them, so a pattern matches if
  and only if the list is not empty.
\<close>

primrec rx_step :: "unicode_db \<Rightarrow> rx \<Rightarrow> mstate \<Rightarrow> mstate list" where
  "rx_step u Eps = (\<lambda>st. [st])"
| "rx_step u (Lit k) = one_char (\<lambda>c. c = k)"
| "rx_step u AnyChar = one_char (\<lambda>c. c \<noteq> 10)"
| "rx_step u (InSet items) = one_char (in_set u items)"
| "rx_step u (NotInSet items) = one_char (\<lambda>c. \<not> in_set u items c)"
| "rx_step u Bol = (\<lambda>st. if fst st = 0 then [st] else [])"
| "rx_step u Eol = (\<lambda>st. if snd st = [] \<or> snd st = [10] then [st] else [])"
| "rx_step u EndText = (\<lambda>st. if snd st = [] then [st] else [])"
| "rx_step u (Seq a b) = (\<lambda>st. concat (map (rx_step u b) (rx_step u a st)))"
| "rx_step u (Opt a) = (\<lambda>st. rx_step u a st @ [st])"
| "rx_step u (Star a) = (\<lambda>st. repeat (length (snd st)) (rx_step u a) [st])"
| "rx_step u (Plus a) =
     (\<lambda>st. concat (map (\<lambda>st'. repeat (length (snd st')) (rx_step u a) [st']) (rx_step u a st)))"

text \<open>\<open>re.match(pattern, s)\<close> is truthy when the pattern matches at the start of \<open>s\<close>.\<close>

definition re_match :: "unicode_db \<Rightarrow> rx \<Rightarrow> pystr \<Rightarrow> bool" where
  "re_match u r s = (rx_step u r (0, s) \<noteq> [])"

text \<open>Notation for writing a pattern down: a literal character, a literal string, a sequence.\<close>

definition lit :: "char \<Rightarrow> rx" where
  "lit c = Lit (cp c)"

definition lits :: "string \<Rightarrow> rx" where
  "lits cs = foldr (\<lambda>c r. Seq (lit c) r) cs Eps"

definition seqs :: "rx list \<Rightarrow> rx" where
  "seqs rs = foldr Seq rs Eps"

definition cchar :: "char \<Rightarrow> citem" where
  "cchar c = CChar (cp c)"

definition crange :: "char \<Rightarrow> char \<Rightarrow> citem" where
  "crange a b = CRange (cp a) (cp b)"

section \<open>The field validators\<close>

text \<open>\<^verbatim>\<open>url_regex = r'^https?:\/\/[^\s/$.?#].[^\s]*$'\<close>\<close>

definition url_regex :: rx where
  "url_regex = seqs
     [Bol, lits ''http'', Opt (lit CHR ''s''), lits ''://'',
      NotInSet [CSpace, cchar CHR ''/'', cchar CHR ''$'', cchar CHR ''.'', cchar CHR ''?'', cchar CHR ''#''],
      AnyChar, Star (NotInSet [CSpace]), Eol]"

definition validate_url :: "unicode_db \<Rightarrow> 'r pyval \<Rightarrow> exn + 'r pyval" where
  "validate_url u url =
     (case url of
        PNone \<Rightarrow> Inr url
      | PStr s \<Rightarrow>
          if \<not> re_match u url_regex s then Inl (ValueError ''Invalid URL format'')
          else Inr url
      | _ \<Rightarrow> Inl TypeError)"

text \<open>
  \<open>validate_password\<close>: \<open>len\<close> raises \<open>TypeError\<close> on a value that has no length;
  the four checks follow in the order of the source.
\<close>

definition validate_password :: "unicode_db \<Rightarrow> 'r pyval \<Rightarrow> exn + 'r pyval" where
  "validate_password u password =
     (case password of
        PStr p \<Rightarrow>
          if length p < 8 then Inl (ValueError ''Password must be at least 8 characters.'')
          else if \<not> list_ex (isupper u) p then
            Inl (ValueError ''Password must contain at least one uppercase letter.'')
          else if \<not> list_ex (islower u) p then
            Inl (ValueError ''Password must contain at least one lowercase letter.'')
          else if \<not> list_ex (isdigit u) p then
            Inl (ValueError ''Password must contain at least one digit.'')
          else Inr password
      | _ \<Rightarrow> Inl TypeError)"

text \<open>\<^verbatim>\<open>github_url_pattern = r'^https?:\/\/(?:www\.)?github\.com\/[a-zA-Z0-9-_]+\/?$'\<close>\<close>

definition username_set :: "citem list" where
  "username_set =
     [crange CHR ''a'' CHR ''z'', crange CHR ''A'' CHR ''Z'', crange CHR ''0'' CHR ''9'',
      cchar CHR ''-'', cchar CHR ''_'']"

definition github_url_pattern :: rx where
  "github_url_pattern = seqs
     [Bol, lits ''http'', Opt (lit CHR ''s''), lits ''://'', Opt (lits ''www.''),
      lits ''github.com/'', Plus (InSet username_set), Opt (lit CHR ''/''), Eol]"

definition validate_github_url :: "unicode_db \<Rightarrow> 'r pyval \<Rightarrow> exn + 'r pyval" where
  "validate_github_url u url =
     (case url of
        PNone \<Rightarrow> Inr url
      | PStr s \<Rightarrow>
          if \<not> re_match u github_url_pattern s then
            Inl (ValueError
              ''Invalid GitHub profile URL. The correct format is: https://github.com/<username>.'')
          else Inr url
      | _ \<Rightarrow> Inl TypeError)"

text \<open>\<^verbatim>\<open>linkedin_url_pattern = r'^https?:\/\/(?:www\.)?linkedin\.com\/in\/[a-zA-Z0-9-_%]+\/?$'\<close>\<close>

definition linkedin_url_pattern :: rx where
  "linkedin_url_pattern = seqs
     [Bol, lits ''http'', Opt (lit CHR ''s''), lits ''://'', Opt (lits ''www.''),
      lits ''linkedin.com/in/'', Plus (InSet (username_set @ [cchar CHR ''%''])),
      Opt (lit CHR ''/''), Eol]"

definition validate_linkedin_url :: "unicode_db \<Rightarrow> 'r pyval \<Rightarrow> exn + 'r pyval" where
  "validate_linkedin_url u url =
     (case url of
        PNone \<Rightarrow> Inr url
      | PStr s \<Rightarrow>
          if \<not> re_match u linkedin_url_pattern s then
            Inl (ValueError
              ''Invalid LinkedIn profile URL. The correct format is: https://www.linkedin.com/in/<username>.'')
          else Inr url
      | _ \<Rightarrow> Inl TypeError)"

section \<open>The collaborators\<close>

text \<open>
  The schema classes call code that is not in this file of the repository: the nickname
  generator, the e-mail syntax check behind \<open>EmailStr\<close>, the role enumeration, and the
  conversions of the validation framework to a UUID and to a boolean. They are parameters:
  \<open>generate_nickname\<close> is the string the call returns, \<open>validate_email\<close> gives the
  normalised address of a string that is an address, \<open>role_by_value\<close> finds the member
  of the enumeration that has a given value, and \<open>role_value\<close> is the value of a member
  as the string that a string field takes it for.
\<close>

record 'r collab =
  generate_nickname :: pystr
  validate_email :: "pystr \<Rightarrow> pystr option"
  role_by_value :: "'r pyval \<Rightarrow> 'r option"
  role_value :: "'r \<Rightarrow> pystr"
  uuid_of :: "'r pyval \<Rightarrow> nat option"
  bool_of :: "'r pyval \<Rightarrow> bool option"

section \<open>Validation of a model class\<close>

text \<open>
  A validation error names a location, the empty path for the record as a whole and the
  field name for a field, and the kind of the error. The kind \<open>value_error\<close> carries the
  message of the \<open>ValueError\<close> that a validator function raised.
\<close>

datatype err_kind =
    missing
  | string_type
  | string_too_short
  | string_pattern_mismatch
  | enum_error
  | email_error
  | uuid_error
  | bool_error
  | value_error string

type_synonym error_line = "string list \<times> err_kind"

text \<open>
  Validation of a model either returns the model, or raises \<open>ValidationError\<close> with the
  errors of all fields, or is left by the \<open>TypeError\<close> of a validator function, which the
  framework does not catch.
\<close>

datatype failure = ValidationError "error_line list" | UncaughtTypeError

text \<open>The outcome of one field.\<close>

datatype 'a fres = Valid 'a | Invalid err_kind | Crash

text \<open>
  The raw input is a dictionary. In an association list the first pair of a key is the one
  that counts; \<open>dict_values\<close> lists the values of the dictionary.
\<close>

type_synonym 'r pydict = "(string \<times> 'r pyval) list"

definition get :: "'r pydict \<Rightarrow> string \<Rightarrow> 'r pyval option" where
  "get d key = map_of d key"

definition dict_values :: "'r pydict \<Rightarrow> 'r pyval list" where
  "dict_values d = map snd (AList.clearjunk d)"

subsection \<open>Types and constraints of the fields\<close>

text \<open>
  The string type of the framework accepts a string as it is. It also accepts a member
  of an enumeration, which it replaces by the value of the member. It accepts none of the
  other values of the model.
\<close>

definition as_str :: "'r collab \<Rightarrow> 'r pyval \<Rightarrow> pystr option" where
  "as_str k v = (case v of PStr s \<Rightarrow> Some s | PEnum r \<Rightarrow> Some (role_value k r) | _ \<Rightarrow> None)"

definition str_type :: "'r collab \<Rightarrow> 'r pyval \<Rightarrow> pystr fres" where
  "str_type k v = (case as_str k v of Some s \<Rightarrow> Valid s | None \<Rightarrow> Invalid string_type)"

definition optional :: "('r pyval \<Rightarrow> 'a fres) \<Rightarrow> 'r pyval \<Rightarrow> 'a option fres" where
  "optional f v =
     (case v of
        PNone \<Rightarrow> Valid None
      | _ \<Rightarrow> (case f v of Valid x \<Rightarrow> Valid (Some x) | Invalid e \<Rightarrow> Invalid e | Crash \<Rightarrow> Crash))"

text \<open>\<^verbatim>\<open>Field(None, min_length=3, pattern=r'^[\w-]+$', ...)\<close>\<close>

definition nickname_pattern :: rx where
  "nickname_pattern = seqs [Bol, Plus (InSet [CWord, cchar CHR ''-'']), EndText]"

definition nickname_str :: "unicode_db \<Rightarrow> 'r collab \<Rightarrow> 'r pyval \<Rightarrow> pystr fres" where
  "nickname_str u k v =
     (case as_str k v of
        Some s \<Rightarrow>
          if length s < 3 then Invalid string_too_short
          else if \<not> re_match u nickname_pattern s then Invalid string_pattern_mismatch
          else Valid s
      | None \<Rightarrow> Invalid string_type)"

definition email_str :: "'r collab \<Rightarrow> 'r pyval \<Rightarrow> pystr fres" where
  "email_str k v =
     (case as_str k v of
        Some s \<Rightarrow> (case validate_email k s of Some e \<Rightarrow> Valid e | None \<Rightarrow> Invalid email_error)
      | None \<Rightarrow> Invalid string_type)"

definition enum_member :: "'r collab \<Rightarrow> 'r pyval \<Rightarrow> 'r fres" where
  "enum_member k v =
     (case v of
        PEnum r \<Rightarrow> Valid r
      | _ \<Rightarrow> (case role_by_value k v of Some r \<Rightarrow> Valid r | None \<Rightarrow> Invalid enum_error))"

definition uuid_type :: "'r collab \<Rightarrow> 'r pyval \<Rightarrow> nat fres" where
  "uuid_type k v =
     (case v of
        PUuid n \<Rightarrow> Valid n
      | _ \<Rightarrow> (case uuid_of k v of Some n \<Rightarrow> Valid n | None \<Rightarrow> Invalid uuid_error))"

definition bool_type :: "'r collab \<Rightarrow> 'r pyval \<Rightarrow> bool fres" where
  "bool_type k v =
     (case v of
        PBool b \<Rightarrow> Valid b
      | _ \<Rightarrow> (case bool_of k v of Some b \<Rightarrow> Valid b | None \<Rightarrow> Invalid bool_error))"

subsection \<open>Validator functions attached to a field\<close>

text \<open>
  A validator declared with \<open>pre=True\<close> receives the raw value and runs before the type
  and the constraints of the field are checked, which then apply to what it returns.
  Its \<open>ValueError\<close> becomes an error of the field; its \<open>TypeError\<close> is not caught.
\<close>

definition pre :: "('r pyval \<Rightarrow> exn + 'r pyval) \<Rightarrow> ('r pyval \<Rightarrow> 'a fres) \<Rightarrow> 'r pyval \<Rightarrow> 'a fres" where
  "pre f inner v =
     (case f v of
        Inl (ValueError m) \<Rightarrow> Invalid (value_error m)
      | Inl TypeError \<Rightarrow> Crash
      | Inr v' \<Rightarrow> inner v')"

text \<open>
  A required field that is not in the input is an error. A field with a default takes
  the default, unvalidated, when it is not in the input; with \<open>always=True\<close> the
  default goes through the validators like a supplied value.
\<close>

definition required :: "('r pyval \<Rightarrow> 'a fres) \<Rightarrow> 'r pyval option \<Rightarrow> 'a fres" where
  "required f raw = (case raw of None \<Rightarrow> Invalid missing | Some v \<Rightarrow> f v)"

definition with_default :: "'a \<Rightarrow> ('r pyval \<Rightarrow> 'a fres) \<Rightarrow> 'r pyval option \<Rightarrow> 'a fres" where
  "with_default dflt f raw = (case raw of None \<Rightarrow> Valid dflt | Some v \<Rightarrow> f v)"

definition always :: "'r pyval \<Rightarrow> ('r pyval \<Rightarrow> 'a fres) \<Rightarrow> 'r pyval option \<Rightarrow> 'a fres" where
  "always dflt f raw = (case raw of None \<Rightarrow> f dflt | Some v \<Rightarrow> f v)"

subsection \<open>Collecting the fields\<close>

text \<open>
  The framework validates the fields in the order of their declaration. It goes on after
  a field that is in error and reports the errors of all fields together; an exception
  that it does not catch ends the validation at once.
\<close>

datatype 'a vres = Building 'a | Failing "error_line list" | Aborted

fun field :: "('a \<Rightarrow> 'b) vres \<Rightarrow> string \<Rightarrow> 'a fres \<Rightarrow> 'b vres" where
  "field Aborted name r = Aborted"
| "field acc name Crash = Aborted"
| "field (Building f) name (Valid x) = Building (f x)"
| "field (Building f) name (Invalid e) = Failing [([name], e)]"
| "field (Failing es) name (Valid x) = Failing es"
| "field (Failing es) name (Invalid e) = Failing (es @ [([name], e)])"

fun finish :: "'a vres \<Rightarrow> failure + 'a" where
  "finish (Building x) = Inr x"
| "finish (Failing es) = Inl (ValidationError es)"
| "finish Aborted = Inl UncaughtTypeError"

section \<open>The schema classes\<close>

text \<open>
  \<open>UserBase\<close> declares nine fields. \<open>UserUpdate\<close> declares them again with the types
  of \<open>email\<close> and \<open>role\<close> changed to optional strings, so these two types are the
  parameters of the record. \<open>UserCreate\<close> adds \<open>password\<close>; \<open>UserResponse\<close> adds
  \<open>id\<close> and \<open>is_professional\<close>.
\<close>

record ('e, 'ro) UserBase =
  email :: 'e
  nickname :: "pystr option"
  first_name :: "pystr option"
  last_name :: "pystr option"
  bio :: "pystr option"
  profile_picture_url :: "pystr option"
  linkedin_profile_url :: "pystr option"
  github_profile_url :: "pystr option"
  role :: 'ro

record 'r UserCreate = "(pystr, 'r) UserBase" +
  password :: pystr

type_synonym UserUpdate = "(pystr option, pystr option) UserBase"

record 'r UserResponse = "(pystr, 'r) UserBase" +
  id' :: nat
  is_professional :: "bool option"

subsection \<open>\<open>UserCreate\<close>\<close>

text \<open>\<^verbatim>\<open>return value or generate_nickname()\<close>\<close>

definition set_or_generate_nickname :: "'r collab \<Rightarrow> 'r pyval \<Rightarrow> exn + 'r pyval" where
  "set_or_generate_nickname k v = Inr (if truthy v then v else PStr (generate_nickname k))"

definition create_nickname :: "unicode_db \<Rightarrow> 'r collab \<Rightarrow> 'r pydict \<Rightarrow> pystr option fres" where
  "create_nickname u k d =
     always PNone (pre (set_or_generate_nickname k) (optional (nickname_str u k))) (get d ''nickname'')"

definition url_field ::
  "'r collab \<Rightarrow> ('r pyval \<Rightarrow> exn + 'r pyval) \<Rightarrow> 'r pydict \<Rightarrow> string \<Rightarrow> pystr option fres" where
  "url_field k f d name = with_default None (pre f (optional (str_type k))) (get d name)"

definition text_field :: "'r collab \<Rightarrow> 'r pydict \<Rightarrow> string \<Rightarrow> pystr option fres" where
  "text_field k d name = with_default None (optional (str_type k)) (get d name)"

definition create_password :: "unicode_db \<Rightarrow> 'r collab \<Rightarrow> 'r pydict \<Rightarrow> pystr fres" where
  "create_password u k d = required (pre (validate_password u) (str_type k)) (get d ''password'')"

definition mk_UserCreate ::
  "pystr \<Rightarrow> pystr option \<Rightarrow> pystr option \<Rightarrow> pystr option \<Rightarrow> pystr option \<Rightarrow> pystr option \<Rightarrow>
   pystr option \<Rightarrow> pystr option \<Rightarrow> 'r \<Rightarrow> pystr \<Rightarrow> 'r UserCreate" where
  "mk_UserCreate e n f l b p li g r pw =
     \<lparr>email = e, nickname = n, first_name = f, last_name = l, bio = b,
      profile_picture_url = p, linkedin_profile_url = li, github_profile_url = g,
      role = r, password = pw\<rparr>"

definition UserCreate_fields :: "unicode_db \<Rightarrow> 'r collab \<Rightarrow> 'r pydict \<Rightarrow> 'r UserCreate vres" where
  "UserCreate_fields u k d =
     field (field (field (field (field (field (field (field (field (field
       (Building mk_UserCreate)
       ''email'' (required (email_str k) (get d ''email'')))
       ''nickname'' (create_nickname u k d))
       ''first_name'' (text_field k d ''first_name''))
       ''last_name'' (text_field k d ''last_name''))
       ''bio'' (text_field k d ''bio''))
       ''profile_picture_url'' (url_field k (validate_url u) d ''profile_picture_url''))
       ''linkedin_profile_url'' (url_field k (validate_linkedin_url u) d ''linkedin_profile_url''))
       ''github_profile_url'' (url_field k (validate_github_url u) d ''github_profile_url''))
       ''role'' (required (enum_member k) (get d ''role'')))
       ''password'' (create_password u k d)"

definition UserCreate_validate :: "unicode_db \<Rightarrow> 'r collab \<Rightarrow> 'r pydict \<Rightarrow> failure + 'r UserCreate" where
  "UserCreate_validate u k d = finish (UserCreate_fields u k d)"

subsection \<open>\<open>UserUpdate\<close>\<close>

text \<open>
  \<^verbatim>\<open>if not any(values.values()): raise ValueError(...)\<close>
  The root validator is declared with \<open>pre=True\<close>: it receives the raw dictionary
  before any field is looked at.
\<close>

definition check_at_least_one_value :: "'r pydict \<Rightarrow> exn + 'r pydict" where
  "check_at_least_one_value vals =
     (if \<not> list_ex truthy (dict_values vals) then
        Inl (ValueError ''At least one field must be provided for update'')
      else Inr vals)"

definition mk_UserUpdate ::
  "pystr option \<Rightarrow> pystr option \<Rightarrow> pystr option \<Rightarrow> pystr option \<Rightarrow> pystr option \<Rightarrow> pystr option \<Rightarrow>
   pystr option \<Rightarrow> pystr option \<Rightarrow> pystr option \<Rightarrow> UserUpdate" where
  "mk_UserUpdate e n f l b p li g r =
     \<lparr>email = e, nickname = n, first_name = f, last_name = l, bio = b,
      profile_picture_url = p, linkedin_profile_url = li, github_profile_url = g,
      role = r\<rparr>"

definition UserUpdate_fields :: "unicode_db \<Rightarrow> 'r collab \<Rightarrow> 'r pydict \<Rightarrow> UserUpdate vres" where
  "UserUpdate_fields u k d =
     field (field (field (field (field (field (field (field (field
       (Building mk_UserUpdate)
       ''email'' (with_default None (optional (email_str k)) (get d ''email'')))
       ''nickname'' (with_default None (optional (nickname_str u k)) (get d ''nickname'')))
       ''first_name'' (text_field k d ''first_name''))
       ''last_name'' (text_field k d ''last_name''))
       ''bio'' (text_field k d ''bio''))
       ''profile_picture_url'' (url_field k (validate_url u) d ''profile_picture_url''))
       ''linkedin_profile_url'' (url_field k (validate_linkedin_url u) d ''linkedin_profile_url''))
       ''github_profile_url'' (url_field k (validate_github_url u) d ''github_profile_url''))
       ''role'' (text_field k d ''role'')"

definition UserUpdate_validate :: "unicode_db \<Rightarrow> 'r collab \<Rightarrow> 'r pydict \<Rightarrow> failure + UserUpdate" where
  "UserUpdate_validate u k d =
     (case check_at_least_one_value d of
        Inl (ValueError m) \<Rightarrow> Inl (ValidationError [([], value_error m)])
      | Inl TypeError \<Rightarrow> Inl UncaughtTypeError
      | Inr d' \<Rightarrow> finish (UserUpdate_fields u k d'))"

subsection \<open>\<open>UserResponse\<close>\<close>

text \<open>
  \<open>UserResponse\<close> is built from the attributes of a stored user (\<open>from_attributes\<close>):
  the dictionary gives the value of each attribute of that object. The class inherits
  the three URL validators of \<open>UserBase\<close>; it has no validator for the nickname.
\<close>

definition mk_UserResponse ::
  "pystr \<Rightarrow> pystr option \<Rightarrow> pystr option \<Rightarrow> pystr option \<Rightarrow> pystr option \<Rightarrow> pystr option \<Rightarrow>
   pystr option \<Rightarrow> pystr option \<Rightarrow> 'r \<Rightarrow> nat \<Rightarrow> bool option \<Rightarrow> 'r UserResponse" where
  "mk_UserResponse e n f l b p li g r i pr =
     \<lparr>email = e, nickname = n, first_name = f, last_name = l, bio = b,
      profile_picture_url = p, linkedin_profile_url = li, github_profile_url = g,
      role = r, id' = i, is_professional = pr\<rparr>"

definition UserResponse_fields :: "unicode_db \<Rightarrow> 'r collab \<Rightarrow> 'r pydict \<Rightarrow> 'r UserResponse vres" where
  "UserResponse_fields u k d =
     field (field (field (field (field (field (field (field (field (field (field
       (Building mk_UserResponse)
       ''email'' (required (email_str k) (get d ''email'')))
       ''nickname'' (with_default None (optional (nickname_str u k)) (get d ''nickname'')))
       ''first_name'' (text_field k d ''first_name''))
       ''last_name'' (text_field k d ''last_name''))
       ''bio'' (text_field k d ''bio''))
       ''profile_picture_url'' (url_field k (validate_url u) d ''profile_picture_url''))
       ''linkedin_profile_url'' (url_field k (validate_linkedin_url u) d ''linkedin_profile_url''))
       ''github_profile_url'' (url_field k (validate_github_url u) d ''github_profile_url''))
       ''role'' (required (enum_member k) (get d ''role'')))
       ''id'' (required (uuid_type k) (get d ''id'')))
       ''is_professional'' (with_default (Some False) (optional (bool_type k)) (get d ''is_professional''))"

definition UserResponse_validate ::
  "unicode_db \<Rightarrow> 'r collab \<Rightarrow> 'r pydict \<Rightarrow> failure + 'r UserResponse" where
  "UserResponse_validate u k d = finish (UserResponse_fields u k d)"

subsection \<open>A validated \<open>UserCreate\<close> as a new input\<close>

text \<open>
  The fields of a validated \<open>UserCreate\<close> as a dictionary, as \<open>model_dump\<close> gives
  them: a string for a string, \<open>None\<close> for an absent optional value, the member of the
  enumeration for the role.
\<close>

definition opt_val :: "pystr option \<Rightarrow> 'r pyval" where
  "opt_val x = (case x of None \<Rightarrow> PNone | Some s \<Rightarrow> PStr s)"

definition model_dump :: "'r UserCreate \<Rightarrow> 'r pydict" where
  "model_dump r =
     [(''email'', PStr (email r)),
      (''nickname'', opt_val (nickname r)),
      (''first_name'', opt_val (first_name r)),
      (''last_name'', opt_val (last_name r)),
      (''bio'', opt_val (bio r)),
      (''profile_picture_url'', opt_val (profile_picture_url r)),
      (''linkedin_profile_url'', opt_val (linkedin_profile_url r)),
      (''github_profile_url'', opt_val (github_profile_url r)),
      (''role'', PEnum (role r)),
      (''password'', PStr (password r))]"

section \<open>The specification's reading of the patterns\<close>

text \<open>
  The form of a profile URL as the specification describes it: \<open>http\<close> or \<open>https\<close>,
  \<open>://\<close>, an optional \<open>www.\<close>, the host with its path prefix, exactly one path segment
  of one or more allowed characters, an optional trailing slash, and nothing after it.
\<close>

fun strip_prefix :: "pystr \<Rightarrow> pystr \<Rightarrow> pystr option" where
  "strip_prefix [] s = Some s"
| "strip_prefix (p # ps) [] = None"
| "strip_prefix (p # ps) (c # cs) = (if p = c then strip_prefix ps cs else None)"

definition is_segment :: "(nat \<Rightarrow> bool) \<Rightarrow> pystr \<Rightarrow> bool" where
  "is_segment ok n = (n \<noteq> [] \<and> list_all ok n)"

definition profile_url_form :: "pystr \<Rightarrow> (nat \<Rightarrow> bool) \<Rightarrow> pystr \<Rightarrow> bool" where
  "profile_url_form host ok s =
     list_ex
       (\<lambda>start. case strip_prefix (start @ host) s of
            None \<Rightarrow> False
          | Some rest \<Rightarrow>
              is_segment ok rest \<or>
              (rest \<noteq> [] \<and> last rest = cp CHR ''/'' \<and> is_segment ok (butlast rest)))
       [str ''http://'', str ''https://'', str ''http://www.'', str ''https://www.'']"

definition username_char :: "nat \<Rightarrow> bool" where
  "username_char c =
     ((cp CHR ''a'' \<le> c \<and> c \<le> cp CHR ''z'') \<or> (cp CHR ''A'' \<le> c \<and> c \<le> cp CHR ''Z'') \<or>
      (cp CHR ''0'' \<le> c \<and> c \<le> cp CHR ''9'') \<or> c = cp CHR ''-'' \<or> c = cp CHR ''_'')"

definition github_url_form :: "pystr \<Rightarrow> bool" where
  "github_url_form s = profile_url_form (str ''github.com/'') username_char s"

definition linkedin_url_form :: "pystr \<Rightarrow> bool" where
  "linkedin_url_form s =
     profile_url_form (str ''linkedin.com/in/'') (\<lambda>c. username_char c \<or> c = cp CHR ''%'') s"

section \<open>Collaborators for concrete inputs\<close>

text \<open>
  Modelled from the spec: the role enumeration \<open>UserRole\<close>, which
  \<open>app.models.user_model\<close> defines and the source files do not include. The members are
  those the specification names; the value of a member is its name.
\<close>

datatype UserRole = ANONYMOUS | AUTHENTICATED | MODERATOR | ADMIN

definition UserRole_by_value :: "UserRole pyval \<Rightarrow> UserRole option" where
  "UserRole_by_value v =
     (case v of
        PStr s \<Rightarrow>
          if s = str ''ANONYMOUS'' then Some ANONYMOUS
          else if s = str ''AUTHENTICATED'' then Some AUTHENTICATED
          else if s = str ''MODERATOR'' then Some MODERATOR
          else if s = str ''ADMIN'' then Some ADMIN
          else None
      | _ \<Rightarrow> None)"

text \<open>
  A small stand-in for the e-mail library, to run the model on examples with plain ASCII
  addresses: an address has one \<open>@\<close>, something before it, and after it a domain with
  a period that neither begins nor ends with one; the normalised address has the domain
  in lower case.
\<close>

definition lower_ascii :: "nat \<Rightarrow> nat" where
  "lower_ascii c = (if cp CHR ''A'' \<le> c \<and> c \<le> cp CHR ''Z'' then c + 32 else c)"

definition simple_email :: "pystr \<Rightarrow> pystr option" where
  "simple_email s =
     (let local = takeWhile (\<lambda>c. c \<noteq> cp CHR ''@'') s;
          rest = dropWhile (\<lambda>c. c \<noteq> cp CHR ''@'') s;
          domain = tl rest
      in if local \<noteq> [] \<and> rest \<noteq> [] \<and> domain \<noteq> [] \<and>
            \<not> list_ex (\<lambda>c. c = cp CHR ''@'') domain \<and>
            list_ex (\<lambda>c. c = cp CHR ''.'') domain \<and>
            hd domain \<noteq> cp CHR ''.'' \<and> last domain \<noteq> cp CHR ''.''
         then Some (local @ [cp CHR ''@''] @ map lower_ascii domain) else None)"

definition UserRole_value :: "UserRole \<Rightarrow> pystr" where
  "UserRole_value r =
     (case r of
        ANONYMOUS \<Rightarrow> str ''ANONYMOUS''
      | AUTHENTICATED \<Rightarrow> str ''AUTHENTICATED''
      | MODERATOR \<Rightarrow> str ''MODERATOR''
      | ADMIN \<Rightarrow> str ''ADMIN'')"

text \<open>The collaborators of the examples; the argument is what the nickname generator returns.\<close>

definition example_collab :: "pystr \<Rightarrow> UserRole collab" where
  "example_collab g =
     \<lparr>generate_nickname = g, validate_email = simple_email, role_by_value = UserRole_by_value,
      role_value = UserRole_value, uuid_of = (\<lambda>v. None), bool_of = (\<lambda>v. None)\<rparr>"

section \<open>Notions used to state the properties\<close>

text \<open>
  The error lines that one field contributes on its own, and the error lines that a
  validation in progress has collected.
\<close>

fun errs :: "string \<Rightarrow> 'a fres \<Rightarrow> error_line list" where
  "errs name (Invalid e) = [([name], e)]"
| "errs name (Valid x) = []"
| "errs name Crash = []"

fun lines_of :: "'a vres \<Rightarrow> error_line list" where
  "lines_of (Building x) = []"
| "lines_of (Failing es) = es"
| "lines_of Aborted = []"

text \<open>
  The errors of the fields of a \<open>UserCreate\<close> input, each field validated on its own,
  in the order of declaration.
\<close>

definition UserCreate_errors :: "unicode_db \<Rightarrow> 'r collab \<Rightarrow> 'r pydict \<Rightarrow> error_line list" where
  "UserCreate_errors u k d =
     errs ''email'' (required (email_str k) (get d ''email'')) @
     errs ''nickname'' (create_nickname u k d) @
     errs ''first_name'' (text_field k d ''first_name'') @
     errs ''last_name'' (text_field k d ''last_name'') @
     errs ''bio'' (text_field k d ''bio'') @
     errs ''profile_picture_url'' (url_field k (validate_url u) d ''profile_picture_url'') @
     errs ''linkedin_profile_url'' (url_field k (validate_linkedin_url u) d ''linkedin_profile_url'') @
     errs ''github_profile_url'' (url_field k (validate_github_url u) d ''github_profile_url'') @
     errs ''role'' (required (enum_member k) (get d ''role'')) @
     errs ''password'' (create_password u k d)"

text \<open>
  The values that the validator functions are annotated for: a string for the password,
  a string or \<open>None\<close> for a URL, when the key is in the input at all.
\<close>

definition str_or_absent :: "'r pyval option \<Rightarrow> bool" where
  "str_or_absent raw = (case raw of None \<Rightarrow> True | Some (PStr s) \<Rightarrow> True | Some _ \<Rightarrow> False)"

definition str_none_or_absent :: "'r pyval option \<Rightarrow> bool" where
  "str_none_or_absent raw =
     (case raw of None \<Rightarrow> True | Some PNone \<Rightarrow> True | Some (PStr s) \<Rightarrow> True | Some _ \<Rightarrow> False)"

definition strings_where_expected :: "'r pydict \<Rightarrow> bool" where
  "strings_where_expected d =
     (str_or_absent (get d ''password'') \<and>
      str_none_or_absent (get d ''profile_picture_url'') \<and>
      str_none_or_absent (get d ''linkedin_profile_url'') \<and>
      str_none_or_absent (get d ''github_profile_url''))"

text \<open>
  The fields that \<open>UserUpdate\<close> declares; an input in which none of them is a key; the
  values that an input holds under other keys.
\<close>

definition UserUpdate_field_names :: "string list" where
  "UserUpdate_field_names =
     [''email'', ''nickname'', ''first_name'', ''last_name'', ''bio'', ''profile_picture_url'',
      ''linkedin_profile_url'', ''github_profile_url'', ''role'']"

definition declared_absent :: "'r pydict \<Rightarrow> bool" where
  "declared_absent d = list_all (\<lambda>name. get d name = None) UserUpdate_field_names"

definition undeclared_values :: "'r pydict \<Rightarrow> 'r pyval list" where
  "undeclared_values d =
     map snd (filter (\<lambda>(key, v). key \<notin> set UserUpdate_field_names) (AList.clearjunk d))"

section \<open>Evaluation and the collection of fields\<close>

lemmas str_eval = str_def cp_def ascii_db_def

lemmas rx_eval = re_match_def url_regex_def github_url_pattern_def linkedin_url_pattern_def
  nickname_pattern_def username_set_def seqs_def lits_def lit_def cchar_def crange_def in_set_def

lemmas model_eval = str_eval get_def dict_values_def check_at_least_one_value_def
  UserUpdate_validate_def UserUpdate_fields_def UserCreate_validate_def UserCreate_fields_def
  UserResponse_validate_def UserResponse_fields_def
  text_field_def url_field_def with_default_def required_def always_def pre_def optional_def
  str_type_def nickname_str_def email_str_def as_str_def enum_member_def uuid_type_def bool_type_def
  create_nickname_def create_password_def set_or_generate_nickname_def
  mk_UserCreate_def mk_UserUpdate_def mk_UserResponse_def
  example_collab_def UserRole_by_value_def UserRole_value_def simple_email_def lower_ascii_def
  validate_url_def validate_password_def validate_github_url_def validate_linkedin_url_def

lemma field_Building:
  "field acc name r = Building y \<longleftrightarrow> (\<exists>f x. acc = Building f \<and> r = Valid x \<and> y = f x)"
  by (cases acc; cases r) auto

lemma field_Aborted: "field acc name r = Aborted \<longleftrightarrow> acc = Aborted \<or> r = Crash"
  by (cases acc; cases r) auto

lemma lines_of_field:
  "lines_of (field acc name r) =
     (if acc = Aborted \<or> r = Crash then [] else lines_of acc @ errs name r)"
  by (cases acc; cases r) auto

lemma field_is_Failing:
  "(\<exists>es. field acc name r = Failing es) \<longleftrightarrow>
     acc \<noteq> Aborted \<and> r \<noteq> Crash \<and> ((\<exists>es. acc = Failing es) \<or> (\<exists>e. r = Invalid e))"
  by (cases acc; cases r) auto

lemma finish_Inr: "finish v = Inr x \<longleftrightarrow> v = Building x"
  by (cases v) auto

lemma finish_ValidationError: "finish v = Inl (ValidationError es) \<longleftrightarrow> v = Failing es"
  by (cases v) auto

lemma finish_Uncaught: "finish v = Inl UncaughtTypeError \<longleftrightarrow> v = Aborted"
  by (cases v) auto

lemma errs_empty: "errs name r = [] \<longleftrightarrow> (\<forall>e. r \<noteq> Invalid e)"
  by (cases r) auto

lemma errs_loc: "(loc, e) \<in> set (errs name r) \<Longrightarrow> loc = [name]"
  by (cases r) auto

text \<open>
  A member of the role enumeration in a string field is taken for its value, and the
  constraints of the field apply to that value.
\<close>

lemma enum_member_in_string_field:
  "text_field (example_collab g) [(''first_name'', PEnum ADMIN)] ''first_name'' =
     Valid (Some (str ''ADMIN''))"
  "nickname_str ascii_db (example_collab g) (PEnum ADMIN) = Valid (str ''ADMIN'')"
  by (simp_all add: model_eval rx_eval)

subsection \<open>Which fields can raise \<open>TypeError\<close>\<close>

lemma optional_Crash: "optional f v = Crash \<longleftrightarrow> v \<noteq> PNone \<and> f v = Crash"
  by (auto simp: optional_def split: pyval.splits fres.splits)

lemma str_type_Crash: "str_type k v \<noteq> Crash"
  by (simp add: str_type_def as_str_def split: pyval.splits)

lemma nickname_str_Crash: "nickname_str u k v \<noteq> Crash"
  by (simp add: nickname_str_def as_str_def split: pyval.splits)

lemma email_str_Crash: "email_str k v \<noteq> Crash"
  by (simp add: email_str_def as_str_def split: pyval.splits option.splits)

lemma enum_member_Crash: "enum_member k v \<noteq> Crash"
  by (simp add: enum_member_def split: pyval.splits option.splits)

lemma text_field_Crash: "text_field k d name \<noteq> Crash"
  by (simp add: text_field_def with_default_def optional_Crash str_type_Crash split: option.splits)

lemma required_email_Crash: "required (email_str k) raw \<noteq> Crash"
  by (simp add: required_def email_str_Crash split: option.splits)

lemma optional_email_Crash: "with_default None (optional (email_str k)) raw \<noteq> Crash"
  by (simp add: with_default_def optional_Crash email_str_Crash split: option.splits)

lemma optional_nickname_Crash: "with_default None (optional (nickname_str u k)) raw \<noteq> Crash"
  by (simp add: with_default_def optional_Crash nickname_str_Crash split: option.splits)

lemma required_enum_Crash: "required (enum_member k) raw \<noteq> Crash"
  by (simp add: required_def enum_member_Crash split: option.splits)

lemma create_nickname_Crash: "create_nickname u k d \<noteq> Crash"
  by (simp add: create_nickname_def always_def pre_def set_or_generate_nickname_def
      optional_Crash nickname_str_Crash split: option.splits)

lemma create_password_Crash:
  "create_password u k d = Crash \<longleftrightarrow> \<not> str_or_absent (get d ''password'')"
  by (auto simp: create_password_def required_def pre_def validate_password_def str_or_absent_def
      str_type_def as_str_def split: option.splits pyval.splits sum.splits exn.splits if_splits)

lemma url_field_Crash:
  "url_field k (validate_url u) d name = Crash \<longleftrightarrow> \<not> str_none_or_absent (get d name)"
  "url_field k (validate_github_url u) d name = Crash \<longleftrightarrow> \<not> str_none_or_absent (get d name)"
  "url_field k (validate_linkedin_url u) d name = Crash \<longleftrightarrow> \<not> str_none_or_absent (get d name)"
  by (auto simp: url_field_def with_default_def pre_def validate_url_def validate_github_url_def
      validate_linkedin_url_def str_none_or_absent_def optional_def str_type_def as_str_def
      split: option.splits pyval.splits sum.splits exn.splits if_splits)

lemmas never_Crash = text_field_Crash required_email_Crash required_enum_Crash
  create_nickname_Crash optional_email_Crash optional_nickname_Crash

subsection \<open>The errors of \<open>UserCreate\<close> and of \<open>UserUpdate\<close>\<close>

lemma UserCreate_fields_lines:
  "strings_where_expected d \<Longrightarrow> lines_of (UserCreate_fields u k d) = UserCreate_errors u k d"
  by (simp add: UserCreate_fields_def lines_of_field field_Aborted never_Crash create_password_Crash
      url_field_Crash strings_where_expected_def UserCreate_errors_def)

lemma UserCreate_fields_Failing:
  "strings_where_expected d \<Longrightarrow>
     (\<exists>es. UserCreate_fields u k d = Failing es) \<longleftrightarrow> UserCreate_errors u k d \<noteq> []"
  by (auto simp: UserCreate_fields_def field_is_Failing field_Aborted never_Crash create_password_Crash
      url_field_Crash strings_where_expected_def UserCreate_errors_def errs_empty)

lemma UserCreate_aggregates:
  assumes "strings_where_expected d" and "UserCreate_errors u k d \<noteq> []"
  shows "UserCreate_validate u k d = Inl (ValidationError (UserCreate_errors u k d))"
  using assms UserCreate_fields_Failing [of d u k] UserCreate_fields_lines [of d u k]
  by (auto simp: UserCreate_validate_def)

text \<open>
  \<open>UserCreate\<close> validation is left by a \<open>TypeError\<close> exactly when a value is not
  of the type its validator function is annotated for.
\<close>

lemma UserCreate_TypeError_iff:
  "UserCreate_validate u k d = Inl UncaughtTypeError \<longleftrightarrow> \<not> strings_where_expected d"
  by (auto simp: UserCreate_validate_def finish_Uncaught UserCreate_fields_def field_Aborted
      never_Crash create_password_Crash url_field_Crash strings_where_expected_def)

lemma UserUpdate_fields_lines:
  assumes "UserUpdate_fields u k d = Failing es"
  shows "es =
     errs ''email'' (with_default None (optional (email_str k)) (get d ''email'')) @
     errs ''nickname'' (with_default None (optional (nickname_str u k)) (get d ''nickname'')) @
     errs ''first_name'' (text_field k d ''first_name'') @
     errs ''last_name'' (text_field k d ''last_name'') @
     errs ''bio'' (text_field k d ''bio'') @
     errs ''profile_picture_url'' (url_field k (validate_url u) d ''profile_picture_url'') @
     errs ''linkedin_profile_url'' (url_field k (validate_linkedin_url u) d ''linkedin_profile_url'') @
     errs ''github_profile_url'' (url_field k (validate_github_url u) d ''github_profile_url'') @
     errs ''role'' (text_field k d ''role'')"
proof -
  have "lines_of (UserUpdate_fields u k d) = es" and "UserUpdate_fields u k d \<noteq> Aborted"
    using assms by simp_all
  then show ?thesis
    by (simp add: UserUpdate_fields_def lines_of_field field_Aborted never_Crash split: if_splits)
qed

lemma check_returns_input: "check_at_least_one_value d = Inr d' \<Longrightarrow> d' = d"
  by (auto simp: check_at_least_one_value_def split: if_splits)

lemma update_all_falsy:
  "\<not> list_ex truthy (dict_values d) \<Longrightarrow>
     UserUpdate_validate u k d =
       Inl (ValidationError [([], value_error ''At least one field must be provided for update'')])"
  by (simp add: UserUpdate_validate_def check_at_least_one_value_def)

lemma undeclared_all:
  assumes "declared_absent d"
  shows "dict_values d = undeclared_values d"
proof -
  have "\<And>key v. (key, v) \<in> set (AList.clearjunk d) \<Longrightarrow> key \<notin> set UserUpdate_field_names"
  proof -
    fix key v
    assume "(key, v) \<in> set (AList.clearjunk d)"
    then have "key \<in> fst ` set d"
      using AList.dom_clearjunk [of d] by force
    then have "map_of d key \<noteq> None"
      by (simp add: map_of_eq_None_iff)
    with assms show "key \<notin> set UserUpdate_field_names"
      by (auto simp: declared_absent_def list_all_iff get_def)
  qed
  then have "filter (\<lambda>(key, v). key \<notin> set UserUpdate_field_names) (AList.clearjunk d) = AList.clearjunk d"
    by (auto simp: filter_id_conv)
  then show ?thesis
    by (simp add: dict_values_def undeclared_values_def)
qed

subsection \<open>Validating again what a validation returned\<close>

lemma text_field_dump: "get d' name = Some (opt_val x) \<Longrightarrow> text_field k' d' name = Valid x"
  by (cases x) (simp_all add: text_field_def with_default_def optional_def str_type_def as_str_def opt_val_def)

lemma url_field_dump:
  "url_field k (validate_url u) d name = Valid x \<Longrightarrow> get d' name = Some (opt_val x) \<Longrightarrow>
     url_field k' (validate_url u) d' name = Valid x"
  "url_field k (validate_github_url u) d name = Valid x \<Longrightarrow> get d' name = Some (opt_val x) \<Longrightarrow>
     url_field k' (validate_github_url u) d' name = Valid x"
  "url_field k (validate_linkedin_url u) d name = Valid x \<Longrightarrow> get d' name = Some (opt_val x) \<Longrightarrow>
     url_field k' (validate_linkedin_url u) d' name = Valid x"
  by (auto simp: url_field_def with_default_def pre_def optional_def str_type_def as_str_def opt_val_def
      validate_url_def validate_github_url_def validate_linkedin_url_def
      split: option.splits pyval.splits sum.splits exn.splits if_splits fres.splits)

lemma create_password_dump:
  "create_password u k d = Valid pw \<Longrightarrow> get d' ''password'' = Some (PStr pw) \<Longrightarrow>
     create_password u k' d' = Valid pw"
  by (auto simp: create_password_def required_def pre_def str_type_def as_str_def validate_password_def
      split: option.splits pyval.splits sum.splits exn.splits if_splits)

lemma create_nickname_Valid:
  assumes "create_nickname u k d = Valid n"
  shows "\<exists>s. n = Some s \<and> 3 \<le> length s \<and> re_match u nickname_pattern s"
  using assms
  by (auto simp: create_nickname_def always_def pre_def set_or_generate_nickname_def optional_def
      nickname_str_def as_str_def split: option.splits pyval.splits if_splits fres.splits)

lemma create_nickname_dump:
  assumes "create_nickname u k d = Valid n" and "get d' ''nickname'' = Some (opt_val n)"
  shows "create_nickname u k' d' = Valid n"
proof -
  from create_nickname_Valid [OF assms(1)] obtain s
    where "n = Some s" and "3 \<le> length s" and "re_match u nickname_pattern s"
    by blast
  with assms(2) show ?thesis
    by (auto simp: create_nickname_def always_def pre_def set_or_generate_nickname_def optional_def
        nickname_str_def as_str_def opt_val_def)
qed

lemma required_enum_dump:
  "get d' ''role'' = Some (PEnum ro) \<Longrightarrow> required (enum_member k) (get d' ''role'') = Valid ro"
  by (simp add: required_def enum_member_def)

lemma get_model_dump:
  "get (model_dump r) ''email'' = Some (PStr (email r))"
  "get (model_dump r) ''nickname'' = Some (opt_val (nickname r))"
  "get (model_dump r) ''first_name'' = Some (opt_val (first_name r))"
  "get (model_dump r) ''last_name'' = Some (opt_val (last_name r))"
  "get (model_dump r) ''bio'' = Some (opt_val (bio r))"
  "get (model_dump r) ''profile_picture_url'' = Some (opt_val (profile_picture_url r))"
  "get (model_dump r) ''linkedin_profile_url'' = Some (opt_val (linkedin_profile_url r))"
  "get (model_dump r) ''github_profile_url'' = Some (opt_val (github_profile_url r))"
  "get (model_dump r) ''role'' = Some (PEnum (role r))"
  "get (model_dump r) ''password'' = Some (PStr (password r))"
  by (simp_all add: model_dump_def get_def)

section \<open>Properties of the field validators\<close>

text \<open>
  Claim C3. \<open>validate_password\<close> returns unchanged every password of at least 8 code
  points that has an uppercase letter, a lowercase letter and a digit. Every other password
  is rejected, and the message names the first rule that is violated in the order
  length, uppercase, lowercase, digit.
\<close>

theorem validate_password_first_violation:
  "(8 \<le> length p \<and> (\<exists>c\<in>set p. isupper u c) \<and> (\<exists>c\<in>set p. islower u c) \<and> (\<exists>c\<in>set p. isdigit u c)
      \<longrightarrow> validate_password u (PStr p) = Inr (PStr p))
   \<and> (length p < 8
      \<longrightarrow> validate_password u (PStr p) = Inl (ValueError ''Password must be at least 8 characters.''))
   \<and> (8 \<le> length p \<and> \<not> (\<exists>c\<in>set p. isupper u c)
      \<longrightarrow> validate_password u (PStr p) =
          Inl (ValueError ''Password must contain at least one uppercase letter.''))
   \<and> (8 \<le> length p \<and> (\<exists>c\<in>set p. isupper u c) \<and> \<not> (\<exists>c\<in>set p. islower u c)
      \<longrightarrow> validate_password u (PStr p) =
          Inl (ValueError ''Password must contain at least one lowercase letter.''))
   \<and> (8 \<le> length p \<and> (\<exists>c\<in>set p. isupper u c) \<and> (\<exists>c\<in>set p. islower u c) \<and> \<not> (\<exists>c\<in>set p. isdigit u c)
      \<longrightarrow> validate_password u (PStr p) =
          Inl (ValueError ''Password must contain at least one digit.''))"
  by (simp add: validate_password_def list_ex_iff)

text \<open>
  The theorem at six passwords: one that passes, one for each rule, and one that violates
  two rules at once and is reported for the earlier one.
\<close>

theorem validate_password_first_violation_witness:
  "validate_password ascii_db (PStr (str ''Secure*1234'') :: unit pyval) = Inr (PStr (str ''Secure*1234''))
   \<and> validate_password ascii_db (PStr (str ''Ab1'') :: unit pyval) =
       Inl (ValueError ''Password must be at least 8 characters.'')
   \<and> validate_password ascii_db (PStr (str ''secure*1234'') :: unit pyval) =
       Inl (ValueError ''Password must contain at least one uppercase letter.'')
   \<and> validate_password ascii_db (PStr (str ''SECURE*1234'') :: unit pyval) =
       Inl (ValueError ''Password must contain at least one lowercase letter.'')
   \<and> validate_password ascii_db (PStr (str ''Secure*abcd'') :: unit pyval) =
       Inl (ValueError ''Password must contain at least one digit.'')
   \<and> validate_password ascii_db (PStr (str ''secure*abcd'') :: unit pyval) =
       Inl (ValueError ''Password must contain at least one uppercase letter.'')"
  using validate_password_first_violation [of "str ''Secure*1234''" ascii_db]
    validate_password_first_violation [of "str ''Ab1''" ascii_db]
    validate_password_first_violation [of "str ''secure*1234''" ascii_db]
    validate_password_first_violation [of "str ''SECURE*1234''" ascii_db]
    validate_password_first_violation [of "str ''Secure*abcd''" ascii_db]
    validate_password_first_violation [of "str ''secure*abcd''" ascii_db]
  by (simp add: str_eval)

subsection \<open>The strings that the profile URL patterns accept\<close>

text \<open>
  The two profile URL patterns differ in the host and in the characters of the path
  segment. What \<open>re.match\<close> accepts for them is worked out once, for any host and any
  character set: the strings of the form that the specification describes, and these
  strings followed by one line feed.
\<close>

lemma strip_prefix_Some: "strip_prefix p s = Some rest \<longleftrightarrow> s = p @ rest"
  by (induction p s rule: strip_prefix.induct) auto

lemma repeat_Nil: "repeat k f [] = []"
  by (induction k) auto

lemma split_head:
  "(\<exists>w. c # cs = w @ rest \<and> P w) \<longleftrightarrow> (rest = c # cs \<and> P []) \<or> (\<exists>w'. cs = w' @ rest \<and> P (c # w'))"
proof
  assume "\<exists>w. c # cs = w @ rest \<and> P w"
  then obtain w where w: "c # cs = w @ rest" "P w" by blast
  show "(rest = c # cs \<and> P []) \<or> (\<exists>w'. cs = w' @ rest \<and> P (c # w'))"
  proof (cases w)
    case Nil
    with w show ?thesis by simp
  next
    case (Cons a w')
    with w have "cs = w' @ rest" "P (c # w')" by simp_all
    then show ?thesis by blast
  qed
next
  assume "(rest = c # cs \<and> P []) \<or> (\<exists>w'. cs = w' @ rest \<and> P (c # w'))"
  then show "\<exists>w. c # cs = w @ rest \<and> P w"
  proof
    assume "rest = c # cs \<and> P []"
    then have "c # cs = [] @ rest \<and> P []" by simp
    then show ?thesis by blast
  next
    assume "\<exists>w'. cs = w' @ rest \<and> P (c # w')"
    then obtain w' where "cs = w' @ rest" "P (c # w')" by blast
    then have "c # cs = (c # w') @ rest \<and> P (c # w')" by simp
    then show ?thesis by blast
  qed
qed

lemma mem_repeat_one_char:
  "(n', rest) \<in> set (repeat k (one_char p) [(n, s)]) \<longleftrightarrow>
     (\<exists>w. s = w @ rest \<and> n' = n + length w \<and> length w \<le> k \<and> (\<forall>c\<in>set w. p c))"
proof (induction k arbitrary: n s)
  case 0
  show ?case by auto
next
  case (Suc k)
  show ?case
  proof (cases s)
    case Nil
    then show ?thesis by (simp add: repeat_Nil) blast
  next
    case (Cons c cs)
    show ?thesis
    proof (cases "p c")
      case False
      with Cons show ?thesis
        by (simp add: repeat_Nil split_head) blast
    next
      case True
      with Cons show ?thesis
        by (simp add: Suc.IH split_head) blast
    qed
  qed
qed


lemma lits_simps: "lits [] = Eps" "lits (c # cs) = Seq (lit c) (lits cs)"
  by (simp_all add: lits_def)

lemma seqs_simps: "seqs [] = Eps" "seqs (r # rs) = Seq r (seqs rs)"
  by (simp_all add: seqs_def)

lemma concat_map_nonempty: "concat (map f xs) \<noteq> [] \<longleftrightarrow> (\<exists>x\<in>set xs. f x \<noteq> [])"
  by (induction xs) auto

lemma Seq_nonempty:
  "rx_step u (Seq a R) st \<noteq> [] \<longleftrightarrow> (\<exists>m\<in>set (rx_step u a st). rx_step u R m \<noteq> [])"
  by (simp add: concat_map_nonempty)

lemma Seq_lit_nonempty:
  "rx_step u (Seq (lit c) R) (n, s) \<noteq> [] \<longleftrightarrow>
     (\<exists>rest. s = cp c # rest \<and> rx_step u R (Suc n, rest) \<noteq> [])"
  by (cases s) (auto simp: lit_def)

lemma concat_concat_map:
  "concat (concat (map (\<lambda>x. map f (g x)) xs)) = concat (map (\<lambda>x. concat (map f (g x))) xs)"
  by (induction xs) auto

lemma Seq_Seq: "rx_step u (Seq (Seq a b) R) st = rx_step u (Seq a (Seq b R)) st"
  by (simp add: map_concat comp_def concat_concat_map)

lemma Seq_Eps: "rx_step u (Seq Eps R) st = rx_step u R st"
  by simp

lemma Seq_lits_nonempty:
  "rx_step u (Seq (lits cs) R) (n, s) \<noteq> [] \<longleftrightarrow>
     (\<exists>rest. s = str cs @ rest \<and> rx_step u R (n + length cs, rest) \<noteq> [])"
proof (induction cs arbitrary: n s)
  case Nil
  show ?case by (simp add: lits_simps str_def)
next
  case (Cons c cs)
  have "rx_step u (Seq (lits (c # cs)) R) (n, s) \<noteq> [] \<longleftrightarrow>
          rx_step u (Seq (lit c) (Seq (lits cs) R)) (n, s) \<noteq> []"
    by (simp only: lits_simps Seq_Seq)
  also have "\<dots> \<longleftrightarrow> (\<exists>r. s = cp c # r \<and> rx_step u (Seq (lits cs) R) (Suc n, r) \<noteq> [])"
    by (rule Seq_lit_nonempty)
  also have "\<dots> \<longleftrightarrow> (\<exists>r. s = cp c # r \<and>
         (\<exists>rest. r = str cs @ rest \<and> rx_step u R (Suc n + length cs, rest) \<noteq> []))"
    by (simp only: Cons.IH)
  also have "\<dots> \<longleftrightarrow> (\<exists>rest. s = str (c # cs) @ rest \<and> rx_step u R (n + length (c # cs), rest) \<noteq> [])"
    by (auto simp: str_def)
  finally show ?case .
qed

lemma Seq_Opt_nonempty:
  "rx_step u (Seq (Opt a) R) st \<noteq> [] \<longleftrightarrow>
     rx_step u (Seq a R) st \<noteq> [] \<or> rx_step u R st \<noteq> []"
  by (simp add: concat_map_nonempty)

lemma Seq_Eol_Eps_nonempty: "rx_step u (Seq Eol Eps) (n, s) \<noteq> [] \<longleftrightarrow> s = [] \<or> s = [10]"
  by simp

lemma Seq_Bol: "rx_step u (Seq Bol R) (0, s) = rx_step u R (0, s)"
  by simp


lemma mem_Plus_InSet:
  "(n', rest) \<in> set (rx_step u (Plus (InSet items)) (n, s)) \<longleftrightarrow>
     (\<exists>w. s = w @ rest \<and> w \<noteq> [] \<and> n' = n + length w \<and> (\<forall>c\<in>set w. in_set u items c))"
proof (cases s)
  case Nil
  then show ?thesis by simp
next
  case (Cons c cs)
  show ?thesis
  proof (cases "in_set u items c")
    case False
    with Cons show ?thesis
      by (simp add: split_head)
  next
    case True
    have "(n', rest) \<in> set (rx_step u (Plus (InSet items)) (n, s)) \<longleftrightarrow>
            (n', rest) \<in> set (repeat (length cs) (one_char (in_set u items)) [(Suc n, cs)])"
      using Cons True by simp
    also have "\<dots> \<longleftrightarrow> (\<exists>w. cs = w @ rest \<and> n' = Suc n + length w \<and> length w \<le> length cs \<and>
        (\<forall>c\<in>set w. in_set u items c))"
      by (rule mem_repeat_one_char)
    also have "\<dots> \<longleftrightarrow> (\<exists>w. cs = w @ rest \<and> n' = Suc n + length w \<and> (\<forall>c\<in>set w. in_set u items c))"
      by auto
    also have "\<dots> \<longleftrightarrow> (\<exists>w. s = w @ rest \<and> w \<noteq> [] \<and> n' = n + length w \<and>
        (\<forall>c\<in>set w. in_set u items c))"
      using Cons True by (simp add: split_head)
    finally show ?thesis .
  qed
qed

lemma Seq_Plus_nonempty:
  "rx_step u (Seq (Plus (InSet items)) R) (n, s) \<noteq> [] \<longleftrightarrow>
     (\<exists>w rest. s = w @ rest \<and> w \<noteq> [] \<and> (\<forall>c\<in>set w. in_set u items c) \<and>
        rx_step u R (n + length w, rest) \<noteq> [])"
proof -
  have "rx_step u (Seq (Plus (InSet items)) R) (n, s) \<noteq> [] \<longleftrightarrow>
      (\<exists>n' rest. (n', rest) \<in> set (rx_step u (Plus (InSet items)) (n, s)) \<and>
          rx_step u R (n', rest) \<noteq> [])"
    by (simp only: Seq_nonempty) auto
  also have "\<dots> \<longleftrightarrow> (\<exists>w rest. s = w @ rest \<and> w \<noteq> [] \<and> (\<forall>c\<in>set w. in_set u items c) \<and>
        rx_step u R (n + length w, rest) \<noteq> [])"
    by (simp only: mem_Plus_InSet) blast
  finally show ?thesis .
qed


lemma segment_tail:
  "rx_step u (seqs [Plus (InSet items), Opt (lit CHR ''/''), Eol]) (n, s) \<noteq> [] \<longleftrightarrow>
     (\<exists>w slash tail. s = w @ slash @ tail \<and> w \<noteq> [] \<and> (\<forall>c\<in>set w. in_set u items c) \<and>
        (slash = [] \<or> slash = str ''/'') \<and> (tail = [] \<or> tail = [10]))"
  (is "?L \<longleftrightarrow> ?R")
proof -
  have "?L \<longleftrightarrow> (\<exists>w rest. s = w @ rest \<and> w \<noteq> [] \<and> (\<forall>c\<in>set w. in_set u items c) \<and>
      ((\<exists>r. rest = cp CHR ''/'' # r \<and> (r = [] \<or> r = [10])) \<or> (rest = [] \<or> rest = [10])))"
    by (simp only: seqs_simps Seq_Plus_nonempty Seq_Opt_nonempty Seq_lit_nonempty
        Seq_Eol_Eps_nonempty)
  also have "\<dots> \<longleftrightarrow> ?R"
  proof
    assume "\<exists>w rest. s = w @ rest \<and> w \<noteq> [] \<and> (\<forall>c\<in>set w. in_set u items c) \<and>
      ((\<exists>r. rest = cp CHR ''/'' # r \<and> (r = [] \<or> r = [10])) \<or> (rest = [] \<or> rest = [10]))"
    then obtain w rest where w: "s = w @ rest" "w \<noteq> []" "\<forall>c\<in>set w. in_set u items c"
      and rest: "(\<exists>r. rest = cp CHR ''/'' # r \<and> (r = [] \<or> r = [10])) \<or> (rest = [] \<or> rest = [10])"
      by blast
    from rest obtain slash tail where "rest = slash @ tail" "slash = [] \<or> slash = str ''/''"
      "tail = [] \<or> tail = [10]"
    proof
      assume "\<exists>r. rest = cp CHR ''/'' # r \<and> (r = [] \<or> r = [10])"
      then obtain r where "rest = str ''/'' @ r" "r = [] \<or> r = [10]"
        by (auto simp: str_def)
      then show ?thesis using that by blast
    next
      assume "rest = [] \<or> rest = [10]"
      then have "rest = [] @ rest" "rest = [] \<or> rest = [10]" by simp_all
      then show ?thesis using that by blast
    qed
    with w show ?R by blast
  next
    assume ?R
    then obtain w slash tail where w: "s = w @ slash @ tail" "w \<noteq> []"
      "\<forall>c\<in>set w. in_set u items c" "slash = [] \<or> slash = str ''/''" "tail = [] \<or> tail = [10]"
      by blast
    then have "(\<exists>r. slash @ tail = cp CHR ''/'' # r \<and> (r = [] \<or> r = [10])) \<or>
        (slash @ tail = [] \<or> slash @ tail = [10])"
      by (auto simp: str_def)
    with w show "\<exists>w rest. s = w @ rest \<and> w \<noteq> [] \<and> (\<forall>c\<in>set w. in_set u items c) \<and>
      ((\<exists>r. rest = cp CHR ''/'' # r \<and> (r = [] \<or> r = [10])) \<or> (rest = [] \<or> rest = [10]))"
      by blast
  qed
  finally show ?thesis .
qed

lemma segment_form:
  "is_segment ok rest \<or> (rest \<noteq> [] \<and> last rest = cp CHR ''/'' \<and> is_segment ok (butlast rest)) \<longleftrightarrow>
     (\<exists>w slash. rest = w @ slash \<and> w \<noteq> [] \<and> (\<forall>c\<in>set w. ok c) \<and>
        (slash = [] \<or> slash = str ''/''))"
  (is "?L \<longleftrightarrow> ?R")
proof
  assume ?L
  then show ?R
  proof
    assume "is_segment ok rest"
    then have "rest = rest @ [] \<and> rest \<noteq> [] \<and> (\<forall>c\<in>set rest. ok c)"
      by (simp add: is_segment_def list_all_iff)
    then show ?R by blast
  next
    assume a: "rest \<noteq> [] \<and> last rest = cp CHR ''/'' \<and> is_segment ok (butlast rest)"
    then have "rest = butlast rest @ str ''/''"
      using append_butlast_last_id [of rest] by (simp add: str_def)
    with a have "rest = butlast rest @ str ''/'' \<and> butlast rest \<noteq> [] \<and>
        (\<forall>c\<in>set (butlast rest). ok c)"
      by (simp add: is_segment_def list_all_iff)
    then show ?R by blast
  qed
next
  assume ?R
  then obtain w slash where w: "rest = w @ slash" "w \<noteq> []" "\<forall>c\<in>set w. ok c"
    "slash = [] \<or> slash = str ''/''"
    by blast
  from w(4) show ?L
  proof
    assume "slash = []"
    with w show ?L by (simp add: is_segment_def list_all_iff)
  next
    assume "slash = str ''/''"
    with w show ?L by (simp add: is_segment_def list_all_iff str_def)
  qed
qed


lemma starts_unfold:
  "(\<exists>rest. s = str ''http'' @ rest \<and>
      ((\<exists>r. rest = cp CHR ''s'' # r \<and>
          (\<exists>r3. r = str ''://'' @ r3 \<and>
             ((\<exists>r4. r3 = str ''www.'' @ r4 \<and> (\<exists>r5. r4 = h @ r5 \<and> P r5)) \<or>
              (\<exists>r5. r3 = h @ r5 \<and> P r5)))) \<or>
       (\<exists>r3. rest = str ''://'' @ r3 \<and>
             ((\<exists>r4. r3 = str ''www.'' @ r4 \<and> (\<exists>r5. r4 = h @ r5 \<and> P r5)) \<or>
              (\<exists>r5. r3 = h @ r5 \<and> P r5))))) \<longleftrightarrow>
   (\<exists>start r5. start \<in> set [str ''http://'', str ''https://'', str ''http://www.'', str ''https://www.''] \<and>
      s = start @ h @ r5 \<and> P r5)"
  (is "?L \<longleftrightarrow> ?R")
proof
  have lits: "str ''http'' @ str ''://'' = str ''http://''"
    "str ''http'' @ cp CHR ''s'' # str ''://'' = str ''https://''"
    "str ''http'' @ str ''://'' @ str ''www.'' = str ''http://www.''"
    "str ''http'' @ cp CHR ''s'' # str ''://'' @ str ''www.'' = str ''https://www.''"
    by (simp_all add: str_def)
  {
    assume ?L
    then obtain rest where rest: "s = str ''http'' @ rest" and
      alt: "(\<exists>r. rest = cp CHR ''s'' # r \<and>
          (\<exists>r3. r = str ''://'' @ r3 \<and>
             ((\<exists>r4. r3 = str ''www.'' @ r4 \<and> (\<exists>r5. r4 = h @ r5 \<and> P r5)) \<or>
              (\<exists>r5. r3 = h @ r5 \<and> P r5)))) \<or>
       (\<exists>r3. rest = str ''://'' @ r3 \<and>
             ((\<exists>r4. r3 = str ''www.'' @ r4 \<and> (\<exists>r5. r4 = h @ r5 \<and> P r5)) \<or>
              (\<exists>r5. r3 = h @ r5 \<and> P r5)))"
      by blast
    from alt obtain pre r3 where pre: "rest = pre @ str ''://'' @ r3" "pre = [] \<or> pre = [cp CHR ''s'']"
      and www: "(\<exists>r4. r3 = str ''www.'' @ r4 \<and> (\<exists>r5. r4 = h @ r5 \<and> P r5)) \<or>
              (\<exists>r5. r3 = h @ r5 \<and> P r5)"
    proof
      assume "\<exists>r. rest = cp CHR ''s'' # r \<and>
          (\<exists>r3. r = str ''://'' @ r3 \<and>
             ((\<exists>r4. r3 = str ''www.'' @ r4 \<and> (\<exists>r5. r4 = h @ r5 \<and> P r5)) \<or>
              (\<exists>r5. r3 = h @ r5 \<and> P r5)))"
      then obtain r3 where "rest = [cp CHR ''s''] @ str ''://'' @ r3"
        "(\<exists>r4. r3 = str ''www.'' @ r4 \<and> (\<exists>r5. r4 = h @ r5 \<and> P r5)) \<or>
              (\<exists>r5. r3 = h @ r5 \<and> P r5)"
        by auto
      then show ?thesis using that by blast
    next
      assume "\<exists>r3. rest = str ''://'' @ r3 \<and>
             ((\<exists>r4. r3 = str ''www.'' @ r4 \<and> (\<exists>r5. r4 = h @ r5 \<and> P r5)) \<or>
              (\<exists>r5. r3 = h @ r5 \<and> P r5))"
      then obtain r3 where "rest = [] @ str ''://'' @ r3"
        "(\<exists>r4. r3 = str ''www.'' @ r4 \<and> (\<exists>r5. r4 = h @ r5 \<and> P r5)) \<or>
              (\<exists>r5. r3 = h @ r5 \<and> P r5)"
        by auto
      then show ?thesis using that by blast
    qed
    from www obtain w r5 where w: "r3 = w @ h @ r5" "w = [] \<or> w = str ''www.''" "P r5"
    proof
      assume "\<exists>r4. r3 = str ''www.'' @ r4 \<and> (\<exists>r5. r4 = h @ r5 \<and> P r5)"
      then obtain r5 where "r3 = str ''www.'' @ h @ r5" "P r5" by auto
      then show ?thesis using that by blast
    next
      assume "\<exists>r5. r3 = h @ r5 \<and> P r5"
      then obtain r5 where "r3 = [] @ h @ r5" "P r5" by auto
      then show ?thesis using that by blast
    qed
    have s: "s = (str ''http'' @ pre @ str ''://'' @ w) @ h @ r5"
      using rest pre(1) w(1) by simp
    have "str ''http'' @ pre @ str ''://'' @ w \<in>
        set [str ''http://'', str ''https://'', str ''http://www.'', str ''https://www.'']"
      using pre(2) w(2) lits by auto
    with s w(3) show ?R by blast
  }
  {
    assume ?R
    then obtain start r5 where start: "start \<in>
        set [str ''http://'', str ''https://'', str ''http://www.'', str ''https://www.'']"
      and s: "s = start @ h @ r5" and p: "P r5"
      by blast
    from start consider "start = str ''http'' @ str ''://''"
      | "start = str ''http'' @ cp CHR ''s'' # str ''://''"
      | "start = str ''http'' @ str ''://'' @ str ''www.''"
      | "start = str ''http'' @ cp CHR ''s'' # str ''://'' @ str ''www.''"
      unfolding lits by auto
    then show ?L
    proof cases
      case 1
      with s have "s = str ''http'' @ (str ''://'' @ h @ r5)" by simp
      with p show ?thesis by blast
    next
      case 2
      with s have "s = str ''http'' @ (cp CHR ''s'' # (str ''://'' @ h @ r5))" by simp
      with p show ?thesis by blast
    next
      case 3
      with s have "s = str ''http'' @ (str ''://'' @ (str ''www.'' @ (h @ r5)))" by simp
      with p show ?thesis by blast
    next
      case 4
      with s have "s = str ''http'' @ (cp CHR ''s'' # (str ''://'' @ (str ''www.'' @ (h @ r5))))" by simp
      with p show ?thesis by blast
    qed
  }
qed


lemma profile_pattern_match:
  "re_match u
     (seqs [Bol, lits ''http'', Opt (lit CHR ''s''), lits ''://'', Opt (lits ''www.''), lits host,
            Plus (InSet items), Opt (lit CHR ''/''), Eol]) s \<longleftrightarrow>
   (\<exists>start rest. start \<in> set [str ''http://'', str ''https://'', str ''http://www.'', str ''https://www.''] \<and>
      s = start @ str host @ rest \<and>
      (\<exists>w slash tail. rest = w @ slash @ tail \<and> w \<noteq> [] \<and> (\<forall>c\<in>set w. in_set u items c) \<and>
        (slash = [] \<or> slash = str ''/'') \<and> (tail = [] \<or> tail = [10])))"
  by (simp only: re_match_def seqs_simps Seq_Bol Seq_lits_nonempty Seq_Opt_nonempty
      Seq_lit_nonempty segment_tail [unfolded seqs_simps] starts_unfold)


lemma case_strip_prefix:
  "(case strip_prefix p s of None \<Rightarrow> False | Some rest \<Rightarrow> Q rest) \<longleftrightarrow> (\<exists>rest. s = p @ rest \<and> Q rest)"
proof (cases "strip_prefix p s")
  case None
  then have "s \<noteq> p @ rest" for rest
    using strip_prefix_Some [of p s rest] by simp
  with None show ?thesis by simp
next
  case (Some r)
  then have "s = p @ r" by (simp add: strip_prefix_Some)
  with Some show ?thesis by simp
qed

lemma profile_url_form_iff:
  "profile_url_form h ok s \<longleftrightarrow>
     (\<exists>start rest. start \<in> set [str ''http://'', str ''https://'', str ''http://www.'', str ''https://www.''] \<and>
        s = start @ h @ rest \<and>
        (\<exists>w slash. rest = w @ slash \<and> w \<noteq> [] \<and> (\<forall>c\<in>set w. ok c) \<and>
           (slash = [] \<or> slash = str ''/'')))"
  unfolding profile_url_form_def list_ex_iff case_strip_prefix segment_form Bex_def append_assoc
  by blast


lemma profile_pattern_accepts:
  "re_match u
     (seqs [Bol, lits ''http'', Opt (lit CHR ''s''), lits ''://'', Opt (lits ''www.''), lits host,
            Plus (InSet items), Opt (lit CHR ''/''), Eol]) s \<longleftrightarrow>
   profile_url_form (str host) (in_set u items) s \<or>
   (\<exists>t. s = t @ [10] \<and> profile_url_form (str host) (in_set u items) t)"
  (is "?L \<longleftrightarrow> ?R")
proof
  assume ?L
  then obtain start rest w slash tail where
    start: "start \<in> set [str ''http://'', str ''https://'', str ''http://www.'', str ''https://www.'']"
    and s: "s = start @ str host @ rest" and rest: "rest = w @ slash @ tail"
    and w: "w \<noteq> []" "\<forall>c\<in>set w. in_set u items c" "slash = [] \<or> slash = str ''/''"
    and tail: "tail = [] \<or> tail = [10]"
    unfolding profile_pattern_match by blast
  have form: "profile_url_form (str host) (in_set u items) (start @ str host @ w @ slash)"
    unfolding profile_url_form_iff using start w by blast
  from tail show ?R
  proof
    assume "tail = []"
    with s rest form show ?R by simp
  next
    assume "tail = [10]"
    with s rest have "s = (start @ str host @ w @ slash) @ [10]" by simp
    with form show ?R by blast
  qed
next
  assume ?R
  then obtain t tail where t: "s = t @ tail" "tail = [] \<or> tail = [10]"
    and form: "profile_url_form (str host) (in_set u items) t"
    by (metis append_Nil2)
  from form obtain start rest w slash where
    start: "start \<in> set [str ''http://'', str ''https://'', str ''http://www.'', str ''https://www.'']"
    and "t = start @ str host @ rest" "rest = w @ slash"
    and w: "w \<noteq> []" "\<forall>c\<in>set w. in_set u items c" "slash = [] \<or> slash = str ''/''"
    unfolding profile_url_form_iff by blast
  with t have "s = start @ str host @ (w @ slash @ tail)" by simp
  with start w t(2) show ?L
    unfolding profile_pattern_match by blast
qed

lemma in_username_set: "in_set u username_set c = username_char c"
  by (simp add: in_set_def username_set_def username_char_def crange_def cchar_def)

lemma in_linkedin_set:
  "in_set u (username_set @ [cchar CHR ''%'']) c = (username_char c \<or> c = cp CHR ''%'')"
  by (simp add: in_set_def username_set_def username_char_def crange_def cchar_def)

lemma github_url_pattern_accepts:
  "re_match u github_url_pattern s \<longleftrightarrow>
     github_url_form s \<or> (\<exists>t. s = t @ [10] \<and> github_url_form t)"
  unfolding github_url_pattern_def github_url_form_def profile_pattern_accepts
  by (simp add: in_username_set [abs_def])

lemma linkedin_url_pattern_accepts:
  "re_match u linkedin_url_pattern s \<longleftrightarrow>
     linkedin_url_form s \<or> (\<exists>t. s = t @ [10] \<and> linkedin_url_form t)"
  unfolding linkedin_url_pattern_def linkedin_url_form_def profile_pattern_accepts
  by (simp add: in_linkedin_set [abs_def])

lemma validate_github_url_accepts:
  "validate_github_url u (PStr s) =
     (if github_url_form s \<or> (\<exists>t. s = t @ [10] \<and> github_url_form t) then Inr (PStr s)
      else Inl (ValueError
        ''Invalid GitHub profile URL. The correct format is: https://github.com/<username>.''))"
  by (simp add: validate_github_url_def github_url_pattern_accepts)

lemma validate_linkedin_url_accepts:
  "validate_linkedin_url u (PStr s) =
     (if linkedin_url_form s \<or> (\<exists>t. s = t @ [10] \<and> linkedin_url_form t) then Inr (PStr s)
      else Inl (ValueError
        ''Invalid LinkedIn profile URL. The correct format is: https://www.linkedin.com/in/<username>.''))"
  by (simp add: validate_linkedin_url_def linkedin_url_pattern_accepts)

lemmas form_eval = github_url_form_def linkedin_url_form_def profile_url_form_def is_segment_def
  username_char_def

text \<open>
  The examples of the specification: a GitHub URL with one path segment is accepted,
  with \<open>https\<close> or \<open>http\<close> and with a trailing slash; one with a second path segment
  is rejected.
\<close>

lemma validate_github_url_examples:
  "validate_github_url u (PStr (str ''https://github.com/alice'')) =
     Inr (PStr (str ''https://github.com/alice''))"
  "validate_github_url u (PStr (str ''http://github.com/alice/'')) =
     Inr (PStr (str ''http://github.com/alice/''))"
  "validate_github_url u (PStr (str ''https://github.com/alice/repo'')) =
     Inl (ValueError
       ''Invalid GitHub profile URL. The correct format is: https://github.com/<username>.'')"
  "validate_github_url u PNone = Inr PNone"
  by (simp_all add: validate_github_url_def rx_eval str_eval)

text \<open>
  Claim C7 says that \<open>validate_github_url\<close> accepts exactly the strings of the form
  \<open>http\<close> or \<open>https\<close>, \<open>://\<close>, an optional \<open>www.\<close>, \<open>github.com/\<close>, one path
  segment and an optional trailing slash, and rejects every other string. The code
  accepts a string of this form that is followed by a line feed: the pattern ends in
  \<open>$\<close>, which \<open>re.match\<close> lets match before a final line feed, where \<open>\Z\<close> or
  \<open>re.fullmatch\<close> would not. The string below is not of the form and is accepted.
\<close>

theorem validate_github_url_accepts_trailing_newline:
  "validate_github_url u (PStr (str ''https://github.com/alice'' @ [10])) =
     Inr (PStr (str ''https://github.com/alice'' @ [10])) \<and>
   \<not> github_url_form (str ''https://github.com/alice'' @ [10])"
  by (simp add: validate_github_url_def rx_eval form_eval str_eval)

text \<open>
  The examples of the specification for LinkedIn: a URL under \<open>/in/\<close> is accepted, one
  without \<open>/in/\<close> is rejected.
\<close>

lemma validate_linkedin_url_examples:
  "validate_linkedin_url u (PStr (str ''https://www.linkedin.com/in/john-doe'')) =
     Inr (PStr (str ''https://www.linkedin.com/in/john-doe''))"
  "validate_linkedin_url u (PStr (str ''https://linkedin.com/john-doe'')) =
     Inl (ValueError
       ''Invalid LinkedIn profile URL. The correct format is: https://www.linkedin.com/in/<username>.'')"
  "validate_linkedin_url u PNone = Inr PNone"
  by (simp_all add: validate_linkedin_url_def rx_eval str_eval)

text \<open>
  Claim C8 says that \<open>validate_linkedin_url\<close> accepts exactly the strings of the form
  \<open>http\<close> or \<open>https\<close>, \<open>://\<close>, an optional \<open>www.\<close>, \<open>linkedin.com/in/\<close>, one
  path segment and an optional trailing slash, and rejects every other string. As for
  GitHub, the \<open>$\<close> of the pattern lets the code accept such a string followed by a line
  feed. The string below is not of the form and is accepted.
\<close>

theorem validate_linkedin_url_accepts_trailing_newline:
  "validate_linkedin_url u (PStr (str ''https://www.linkedin.com/in/john-doe'' @ [10])) =
     Inr (PStr (str ''https://www.linkedin.com/in/john-doe'' @ [10])) \<and>
   \<not> linkedin_url_form (str ''https://www.linkedin.com/in/john-doe'' @ [10])"
  by (simp add: validate_linkedin_url_def rx_eval form_eval str_eval)

section \<open>Properties of \<open>UserUpdate\<close>\<close>

text \<open>
  Claim C10. The presence check of \<open>UserUpdate\<close> tests the truthiness of the raw values:
  an input in which every value is falsy, such as an empty string or \<open>None\<close>, is rejected
  with the record-level error "At least one field must be provided for update", although
  its keys are present.
\<close>

theorem update_rejects_falsy_values:
  "(\<forall>v\<in>set (dict_values d). \<not> truthy v) \<Longrightarrow>
     UserUpdate_validate u k d =
       Inl (ValidationError [([], value_error ''At least one field must be provided for update'')])"
  by (rule update_all_falsy) (simp add: list_ex_iff)

theorem update_rejects_falsy_values_witness:
  "list_all (\<lambda>v. \<not> truthy v)
     (dict_values [(''bio'', PStr []), (''email'', PNone), (''first_name'', PStr [] :: UserRole pyval)])
   \<and> UserUpdate_validate ascii_db (example_collab [])
        [(''bio'', PStr []), (''email'', PNone), (''first_name'', PStr [])] =
       Inl (ValidationError [([], value_error ''At least one field must be provided for update'')])"
  using update_rejects_falsy_values
    [of "[(''bio'', PStr []), (''email'', PNone), (''first_name'', PStr [])]" ascii_db "example_collab []"]
  by (simp add: dict_values_def)

text \<open>
  Claim C2 says that an update input in which every declared field is absent is rejected
  with the single record-level error. The code accepts such an input when it holds a
  truthy value under a key that is not a declared field: the check applies \<open>any\<close> to
  all the raw values and passes, the framework ignores the key, and validation returns a
  \<open>UserUpdate\<close> whose fields are all \<open>None\<close>, the empty update that the check and
  its message exist to refuse.
\<close>

theorem update_undeclared_key_accepted:
  "declared_absent [(''foo'', PStr (str ''x'') :: UserRole pyval)] \<and>
   UserUpdate_validate ascii_db (example_collab []) [(''foo'', PStr (str ''x''))] =
     Inr (mk_UserUpdate None None None None None None None None None)"
  by (simp add: declared_absent_def UserUpdate_field_names_def model_eval)

text \<open>
  Apart from that, the check does what it is written for: when every declared field is
  absent and no other key holds a truthy value, as in the empty input, validation fails
  with the record-level error alone, before any field is validated.
\<close>

lemma update_rejects_empty_input:
  "declared_absent d \<Longrightarrow> \<not> list_ex truthy (undeclared_values d) \<Longrightarrow>
     UserUpdate_validate u k d =
       Inl (ValidationError [([], value_error ''At least one field must be provided for update'')])"
  by (rule update_all_falsy) (simp add: undeclared_all)

lemma update_rejects_no_input:
  "UserUpdate_validate u k [] =
     Inl (ValidationError [([], value_error ''At least one field must be provided for update'')])"
  by (rule update_all_falsy) (simp add: dict_values_def)

text \<open>
  Claim C1, as stated: a role that is present in an update passes only if it names a
  member of the role enumeration. It fails: \<open>UserUpdate\<close> declares \<open>role\<close> as an
  optional string, and a string that is the value of no member is accepted.
\<close>

theorem update_role_unchecked_counterexample:
  "UserRole_by_value (PStr (str ''SUPERUSER'')) = None \<and>
   UserUpdate_validate ascii_db (example_collab []) [(''role'', PStr (str ''SUPERUSER''))] =
     Inr (mk_UserUpdate None None None None None None None None (Some (str ''SUPERUSER'')))"
  by (simp add: model_eval)

text \<open>
  Claim C1, amended. In an update, a role that is a string is accepted as it is, whether
  or not it names a member of the role enumeration: a successful validation keeps the
  string unchanged, a failed one reports no error for \<open>role\<close>, and the result does not
  depend on the enumeration at all.
\<close>

theorem update_role_any_string:
  assumes "get d ''role'' = Some (PStr s)"
  shows "(\<forall>r. UserUpdate_validate u k d = Inr r \<longrightarrow> role r = Some s) \<and>
         (\<forall>es e. UserUpdate_validate u k d = Inl (ValidationError es) \<longrightarrow> ([''role''], e) \<notin> set es) \<and>
         (\<forall>f. UserUpdate_validate u (k\<lparr>role_by_value := f\<rparr>) d = UserUpdate_validate u k d)"
proof (intro conjI allI impI)
  have role_ok: "text_field k d ''role'' = Valid (Some s)"
    using assms by (simp add: text_field_def with_default_def optional_def str_type_def as_str_def)
  fix r
  assume "UserUpdate_validate u k d = Inr r"
  then have "UserUpdate_fields u k d = Building r"
    by (auto simp: UserUpdate_validate_def finish_Inr dest: check_returns_input
        split: sum.splits exn.splits)
  then obtain e n fn l b p li g x
    where "r = mk_UserUpdate e n fn l b p li g x" and "text_field k d ''role'' = Valid x"
    by (auto simp: UserUpdate_fields_def field_Building)
  with role_ok show "role r = Some s"
    by (auto simp: mk_UserUpdate_def)
next
  have role_ok: "text_field k d ''role'' = Valid (Some s)"
    using assms by (simp add: text_field_def with_default_def optional_def str_type_def as_str_def)
  fix es e
  assume failed: "UserUpdate_validate u k d = Inl (ValidationError es)"
  show "([''role''], e) \<notin> set es"
  proof (cases "check_at_least_one_value d")
    case (Inl x)
    with failed show ?thesis
      by (auto simp: UserUpdate_validate_def split: exn.splits)
  next
    case (Inr d')
    then have "d' = d"
      by (rule check_returns_input)
    with failed Inr have "UserUpdate_fields u k d = Failing es"
      by (simp add: UserUpdate_validate_def finish_ValidationError)
    from UserUpdate_fields_lines [OF this] role_ok show ?thesis
      by (auto dest!: errs_loc)
  qed
next
  fix f
  have "email_str (k\<lparr>role_by_value := f\<rparr>) = email_str k"
    "str_type (k\<lparr>role_by_value := f\<rparr>) = str_type k"
    "nickname_str u (k\<lparr>role_by_value := f\<rparr>) = nickname_str u k"
    by (rule ext, simp add: email_str_def str_type_def nickname_str_def as_str_def
        split: pyval.splits)+
  then have "\<And>d'. UserUpdate_fields u (k\<lparr>role_by_value := f\<rparr>) d' = UserUpdate_fields u k d'"
    by (simp add: UserUpdate_fields_def text_field_def url_field_def)
  then show "UserUpdate_validate u (k\<lparr>role_by_value := f\<rparr>) d = UserUpdate_validate u k d"
    by (simp add: UserUpdate_validate_def split: sum.splits)
qed

theorem update_role_any_string_witness:
  "get [(''role'', PStr (str ''SUPERUSER'')), (''bio'', PStr (str ''hi''))] ''role'' =
     Some (PStr (str ''SUPERUSER'') :: UserRole pyval) \<and>
   UserUpdate_validate ascii_db (example_collab [])
     [(''role'', PStr (str ''SUPERUSER'')), (''bio'', PStr (str ''hi''))] =
     Inr (mk_UserUpdate None None None None (Some (str ''hi'')) None None None (Some (str ''SUPERUSER''))) \<and>
   role (mk_UserUpdate None None None None (Some (str ''hi'')) None None None (Some (str ''SUPERUSER''))) =
     Some (str ''SUPERUSER'')"
  using update_role_any_string
    [of "[(''role'', PStr (str ''SUPERUSER'')), (''bio'', PStr (str ''hi''))]" "str ''SUPERUSER''"
        ascii_db "example_collab []"]
  by (simp add: model_eval)

section \<open>Properties of \<open>UserCreate\<close>\<close>

text \<open>
  Claim C4, as stated: when the nickname is absent, whatever string the generator returns
  becomes the nickname without being checked against the nickname constraints. It fails:
  the validator is declared with \<open>pre=True\<close>, so the length and the pattern of the field
  are checked on what it returns. A generated \<open>ab\<close> is too short, and a generated
  string with a space does not match the pattern; both are rejected.
\<close>

theorem create_generated_nickname_counterexample:
  "UserCreate_validate ascii_db (example_collab (str ''ab''))
     [(''email'', PStr (str ''john.doe@example.com'')), (''role'', PStr (str ''ADMIN'')),
      (''password'', PStr (str ''Secure*1234''))] =
     Inl (ValidationError [([''nickname''], string_too_short)]) \<and>
   UserCreate_validate ascii_db (example_collab (str ''calm otter''))
     [(''email'', PStr (str ''john.doe@example.com'')), (''role'', PStr (str ''ADMIN'')),
      (''password'', PStr (str ''Secure*1234''))] =
     Inl (ValidationError [([''nickname''], string_pattern_mismatch)])"
  by (simp add: model_eval rx_eval)

text \<open>
  Claim C4, amended. When the nickname of a \<open>UserCreate\<close> input is absent or \<open>None\<close>,
  the string that the generator returns is validated like a supplied nickname: the field
  is valid, with that string as its value, exactly when the string has at least 3 code
  points and matches the nickname pattern, and is in error otherwise. A successful
  validation of the record has the generated string as its nickname.
\<close>

theorem create_generated_nickname_validated:
  assumes "get d ''nickname'' = None \<or> get d ''nickname'' = Some PNone"
  shows "create_nickname u k d =
           (if length (generate_nickname k) < 3 then Invalid string_too_short
            else if \<not> re_match u nickname_pattern (generate_nickname k)
              then Invalid string_pattern_mismatch
            else Valid (Some (generate_nickname k))) \<and>
         (\<forall>r. UserCreate_validate u k d = Inr r \<longrightarrow> nickname r = Some (generate_nickname k))"
proof
  show field: "create_nickname u k d =
           (if length (generate_nickname k) < 3 then Invalid string_too_short
            else if \<not> re_match u nickname_pattern (generate_nickname k)
              then Invalid string_pattern_mismatch
            else Valid (Some (generate_nickname k)))"
    using assms
    by (auto simp: create_nickname_def always_def pre_def set_or_generate_nickname_def optional_def
        nickname_str_def as_str_def)
  show "\<forall>r. UserCreate_validate u k d = Inr r \<longrightarrow> nickname r = Some (generate_nickname k)"
  proof (intro allI impI)
    fix r
    assume "UserCreate_validate u k d = Inr r"
    then have "UserCreate_fields u k d = Building r"
      by (simp add: UserCreate_validate_def finish_Inr)
    then obtain e n f l b p li g ro pw
      where "r = mk_UserCreate e n f l b p li g ro pw" and "create_nickname u k d = Valid n"
      by (auto simp: UserCreate_fields_def field_Building)
    with field show "nickname r = Some (generate_nickname k)"
      by (auto simp: mk_UserCreate_def split: if_splits)
  qed
qed

theorem create_generated_nickname_validated_witness:
  "create_nickname ascii_db (example_collab (str ''calm_otter_42''))
     [(''email'', PStr (str ''john.doe@example.com''))] = Valid (Some (str ''calm_otter_42'')) \<and>
   create_nickname ascii_db (example_collab (str ''ab''))
     [(''email'', PStr (str ''john.doe@example.com'')), (''nickname'', PNone)] =
     Invalid string_too_short"
  using create_generated_nickname_validated
      [of "[(''email'', PStr (str ''john.doe@example.com''))]" ascii_db
          "example_collab (str ''calm_otter_42'')"]
    create_generated_nickname_validated
      [of "[(''email'', PStr (str ''john.doe@example.com'')), (''nickname'', PNone)]" ascii_db
          "example_collab (str ''ab'')"]
  by (simp add: get_def example_collab_def str_eval rx_eval)

text \<open>
  Claim C6 says that a \<open>UserCreate\<close> input with two or more invalid or missing fields
  fails with one composite error that lists every offending field. The code does not do
  so for an input whose password is \<open>None\<close>: \<open>validate_password\<close> is attached with
  \<open>pre=True\<close> and runs on the raw value, \<open>len\<close> raises \<open>TypeError\<close>, and the
  validation ends with that exception instead of a \<open>ValidationError\<close>, although
  \<open>email\<close> and \<open>role\<close> are missing as well. The URL validators next to it test for
  \<open>None\<close> before they use the value; \<open>validate_password\<close> does not.
\<close>

theorem create_null_password_type_error:
  "2 \<le> length (UserCreate_errors ascii_db (example_collab (str ''calm_otter_42''))
          [(''password'', PNone)]) \<and>
   UserCreate_validate ascii_db (example_collab (str ''calm_otter_42'')) [(''password'', PNone)] =
     Inl UncaughtTypeError"
  by (simp add: UserCreate_errors_def errs_empty model_eval)

text \<open>
  Where no validator function raises \<open>TypeError\<close>, the errors of all fields are reported
  together (\<open>UserCreate_aggregates\<close>). An input with four offending fields:
\<close>

lemma create_reports_four_fields:
  "UserCreate_validate ascii_db (example_collab (str ''calm_otter_42''))
     [(''role'', PStr (str ''BOSS'')), (''password'', PStr (str ''secret'')),
      (''github_profile_url'', PStr (str ''https://github.com/alice/repo''))] =
     Inl (ValidationError
       [([''email''], missing),
        ([''github_profile_url''], value_error
           ''Invalid GitHub profile URL. The correct format is: https://github.com/<username>.''),
        ([''role''], enum_error),
        ([''password''], value_error ''Password must be at least 8 characters.'')])"
  by (simp add: model_eval rx_eval)

text \<open>
  Validating again the fields of a validated \<open>UserCreate\<close>: every field other than the
  e-mail address validates to itself, with any nickname generator, so the outcome is
  decided by what the e-mail library does with the address of the record.
\<close>

lemma model_dump_revalidated:
  assumes "UserCreate_validate u k d = Inr r"
  shows "UserCreate_validate u k' (model_dump r) =
     (case validate_email k' (email r) of
        Some e \<Rightarrow> Inr (r\<lparr>email := e\<rparr>)
      | None \<Rightarrow> Inl (ValidationError [([''email''], email_error)]))"
proof -
  from assms have "UserCreate_fields u k d = Building r"
    by (simp add: UserCreate_validate_def finish_Inr)
  then obtain e n f l b p li g ro pw where
    r: "r = mk_UserCreate e n f l b p li g ro pw" and
    v_n: "create_nickname u k d = Valid n" and
    v_p: "url_field k (validate_url u) d ''profile_picture_url'' = Valid p" and
    v_li: "url_field k (validate_linkedin_url u) d ''linkedin_profile_url'' = Valid li" and
    v_g: "url_field k (validate_github_url u) d ''github_profile_url'' = Valid g" and
    v_pw: "create_password u k d = Valid pw"
    by (auto simp: UserCreate_fields_def field_Building)
  have sel: "email r = e" "nickname r = n" "first_name r = f" "last_name r = l" "bio r = b"
    "profile_picture_url r = p" "linkedin_profile_url r = li" "github_profile_url r = g"
    "role r = ro" "password r = pw"
    by (simp_all add: r mk_UserCreate_def)
  have mail: "required (email_str k') (get (model_dump r) ''email'') =
      (case validate_email k' e of Some e' \<Rightarrow> Valid e' | None \<Rightarrow> Invalid email_error)"
    using get_model_dump(1) [of r] by (simp add: required_def email_str_def as_str_def sel)
  have "create_nickname u k' (model_dump r) = Valid n"
    using v_n get_model_dump(2) [of r] unfolding sel by (rule create_nickname_dump)
  moreover have "text_field k' (model_dump r) ''first_name'' = Valid f"
    using get_model_dump(3) [of r] unfolding sel by (rule text_field_dump)
  moreover have "text_field k' (model_dump r) ''last_name'' = Valid l"
    using get_model_dump(4) [of r] unfolding sel by (rule text_field_dump)
  moreover have "text_field k' (model_dump r) ''bio'' = Valid b"
    using get_model_dump(5) [of r] unfolding sel by (rule text_field_dump)
  moreover have "url_field k' (validate_url u) (model_dump r) ''profile_picture_url'' = Valid p"
    using v_p get_model_dump(6) [of r] unfolding sel by (rule url_field_dump(1))
  moreover have "url_field k' (validate_linkedin_url u) (model_dump r) ''linkedin_profile_url'' = Valid li"
    using v_li get_model_dump(7) [of r] unfolding sel by (rule url_field_dump(3))
  moreover have "url_field k' (validate_github_url u) (model_dump r) ''github_profile_url'' = Valid g"
    using v_g get_model_dump(8) [of r] unfolding sel by (rule url_field_dump(2))
  moreover have "required (enum_member k') (get (model_dump r) ''role'') = Valid ro"
    using get_model_dump(9) [of r] unfolding sel by (rule required_enum_dump)
  moreover have "create_password u k' (model_dump r) = Valid pw"
    using v_pw get_model_dump(10) [of r] unfolding sel by (rule create_password_dump)
  ultimately show ?thesis
    using mail
    by (simp add: UserCreate_validate_def UserCreate_fields_def r mk_UserCreate_def sel
        split: option.splits)
qed

section \<open>Properties of \<open>UserResponse\<close>\<close>

lemma response_depends_on_declared:
  assumes "\<And>name. name \<in> set [''email'', ''nickname'', ''first_name'', ''last_name'', ''bio'',
      ''profile_picture_url'', ''linkedin_profile_url'', ''github_profile_url'', ''role'', ''id'',
      ''is_professional''] \<Longrightarrow> get d1 name = get d2 name"
  shows "UserResponse_validate u k d1 = UserResponse_validate u k d2"
proof -
  have "get d1 ''email'' = get d2 ''email''" "get d1 ''nickname'' = get d2 ''nickname''"
    "get d1 ''first_name'' = get d2 ''first_name''" "get d1 ''last_name'' = get d2 ''last_name''"
    "get d1 ''bio'' = get d2 ''bio''"
    "get d1 ''profile_picture_url'' = get d2 ''profile_picture_url''"
    "get d1 ''linkedin_profile_url'' = get d2 ''linkedin_profile_url''"
    "get d1 ''github_profile_url'' = get d2 ''github_profile_url''"
    "get d1 ''role'' = get d2 ''role''" "get d1 ''id'' = get d2 ''id''"
    "get d1 ''is_professional'' = get d2 ''is_professional''"
    by (simp_all add: assms)
  then show ?thesis
    by (simp add: UserResponse_validate_def UserResponse_fields_def text_field_def url_field_def)
qed

text \<open>
  Claim C5. A \<open>UserResponse\<close> has no password field, and building it from the
  attributes of a stored user does not read the password: two sources that differ only
  in the attribute \<open>password\<close> give the same result, the same \<open>UserResponse\<close> or the
  same failure.
\<close>

theorem response_ignores_password:
  assumes "\<forall>key. key \<noteq> ''password'' \<longrightarrow> get d1 key = get d2 key"
  shows "UserResponse_validate u k d1 = UserResponse_validate u k d2"
  by (rule response_depends_on_declared) (use assms in auto)

theorem response_ignores_password_witness:
  "get [(''id'', PUuid 7), (''email'', PStr (str ''john.doe@example.com'')),
        (''role'', PEnum ADMIN), (''password'', PStr (str ''Secure*1234''))] ''password'' \<noteq>
   get [(''id'', PUuid 7), (''email'', PStr (str ''john.doe@example.com'')),
        (''role'', PEnum ADMIN), (''password'', PStr (str ''Other*5678''))] ''password'' \<and>
   UserResponse_validate ascii_db (example_collab [])
     [(''id'', PUuid 7), (''email'', PStr (str ''john.doe@example.com'')),
      (''role'', PEnum ADMIN), (''password'', PStr (str ''Secure*1234''))] =
   UserResponse_validate ascii_db (example_collab [])
     [(''id'', PUuid 7), (''email'', PStr (str ''john.doe@example.com'')),
      (''role'', PEnum ADMIN), (''password'', PStr (str ''Other*5678''))]"
proof
  show "get [(''id'', PUuid 7), (''email'', PStr (str ''john.doe@example.com'')),
        (''role'', PEnum ADMIN), (''password'', PStr (str ''Secure*1234''))] ''password'' \<noteq>
   get [(''id'', PUuid 7), (''email'', PStr (str ''john.doe@example.com'')),
        (''role'', PEnum ADMIN :: UserRole pyval), (''password'', PStr (str ''Other*5678''))] ''password''"
    by (simp add: get_def str_eval)
  have "\<forall>key. key \<noteq> ''password'' \<longrightarrow>
     get [(''id'', PUuid 7), (''email'', PStr (str ''john.doe@example.com'')),
        (''role'', PEnum ADMIN), (''password'', PStr (str ''Secure*1234''))] key =
     get [(''id'', PUuid 7), (''email'', PStr (str ''john.doe@example.com'')),
        (''role'', PEnum ADMIN :: UserRole pyval), (''password'', PStr (str ''Other*5678''))] key"
    by (simp add: get_def)
  then show "UserResponse_validate ascii_db (example_collab [])
     [(''id'', PUuid 7), (''email'', PStr (str ''john.doe@example.com'')),
      (''role'', PEnum ADMIN), (''password'', PStr (str ''Secure*1234''))] =
   UserResponse_validate ascii_db (example_collab [])
     [(''id'', PUuid 7), (''email'', PStr (str ''john.doe@example.com'')),
      (''role'', PEnum ADMIN), (''password'', PStr (str ''Other*5678''))]"
    by (rule response_ignores_password)
qed

end
